theory Spec2Isabelle
  imports Complex_Main
begin

section \<open>The Excellon drill-file parser of gerber/excellon.py\<close>

text \<open>
  The module is Python 2 (\<^verbatim>\<open>itr.next()\<close>): a string is a byte string, modelled as
  \<^typ>\<open>string\<close>. Every raise of the source is a value of \<open>exn\<close>. A method that
  mutates the parser is a function from the parser to the parser; since a Python
  exception leaves behind the mutations made before it, a method that may raise returns
  the pair of the exception (\<open>None\<close> when it returns normally) and the parser as the
  call leaves it.

  Two kinds of objects are shared by reference in the source, the tools and the
  position list \<^verbatim>\<open>self.pos\<close>; both live in an explicit store, and the parser's
  fields, its tool table and its hits hold addresses.

  The coordinate values are Python floats. They are kept abstract: a type \<open>'v\<close> with
  \<open>0\<close>, \<open>+\<close>, \<open>*\<close> and numerals, of which no law is used. The decoder
  \<^verbatim>\<open>parse_gerber_value\<close> is imported from gerber/utils.py, which is not part of the
  modelled file: it is a parameter \<open>pgv\<close> of every function that calls it.
\<close>

subsection \<open>Exceptions and string operations of Python\<close>

datatype exn = IndexError | KeyError | ValueError | AttributeError

type_synonym addr = nat

text \<open>\<^verbatim>\<open>parse_gerber_value(value, format, zero_suppression)\<close>\<close>

type_synonym 'v codec = "string \<Rightarrow> nat \<times> nat \<Rightarrow> string \<Rightarrow> exn + 'v"

definition isspace :: "char \<Rightarrow> bool" where
  "isspace c = (c \<in> set [CHR '' '', CHR 0x09, CHR 0x0A, CHR 0x0B, CHR 0x0C, CHR 0x0D])"

definition isdigit :: "char \<Rightarrow> bool" where
  "isdigit c = (c \<in> set ''0123456789'')"

text \<open>\<^verbatim>\<open>s.startswith(p)\<close> and \<^verbatim>\<open>sub in s\<close>\<close>

fun startswith :: "string \<Rightarrow> string \<Rightarrow> bool" where
  "startswith [] s = True"
| "startswith (p # ps) [] = False"
| "startswith (p # ps) (c # cs) = (p = c \<and> startswith ps cs)"

fun contains :: "string \<Rightarrow> string \<Rightarrow> bool" where
  "contains sub [] = (sub = [])"
| "contains sub (c # cs) = (startswith sub (c # cs) \<or> contains sub cs)"

text \<open>\<^verbatim>\<open>s.strip(chars)\<close> and \<^verbatim>\<open>s.strip()\<close>\<close>

definition strip_chars :: "string \<Rightarrow> string \<Rightarrow> string" where
  "strip_chars chars s =
     rev (dropWhile (\<lambda>c. c \<in> set chars) (rev (dropWhile (\<lambda>c. c \<in> set chars) s)))"

definition strip :: "string \<Rightarrow> string" where
  "strip s = rev (dropWhile isspace (rev (dropWhile isspace s)))"

text \<open>\<^verbatim>\<open>s.split(sep)\<close> for a separator of one character\<close>

fun split :: "char \<Rightarrow> string \<Rightarrow> string list" where
  "split sep [] = [[]]"
| "split sep (c # cs) =
     (if c = sep then [] # split sep cs
      else (let ws = split sep cs in (c # hd ws) # tl ws))"

text \<open>\<^verbatim>\<open>re.split('([...])', s)\<close>: the pieces between the characters of the class, with
  each separator, which the group captures, between its neighbours\<close>

fun re_split :: "string \<Rightarrow> string \<Rightarrow> string list" where
  "re_split seps [] = [[]]"
| "re_split seps (c # cs) =
     (if c \<in> set seps then [] # [c] # re_split seps cs
      else (let ws = re_split seps cs in (c # hd ws) # tl ws))"

text \<open>\<^verbatim>\<open>int(s)\<close> on a string: blanks around, an optional sign, decimal digits\<close>

definition digit_val :: "char \<Rightarrow> nat" where
  "digit_val c = length (takeWhile (\<lambda>d. d \<noteq> c) ''0123456789'')"

definition digits_val :: "string \<Rightarrow> nat" where
  "digits_val ds = foldl (\<lambda>n c. 10 * n + digit_val c) 0 ds"

definition py_int :: "string \<Rightarrow> exn + int" where
  "py_int s =
     (let t = strip s;
          neg = startswith ''-'' t;
          ds = (if startswith ''-'' t \<or> startswith ''+'' t then tl t else t)
      in if ds \<noteq> [] \<and> list_all isdigit ds
         then Inr (if neg then - int (digits_val ds) else int (digits_val ds))
         else Inl ValueError)"

text \<open>\<^verbatim>\<open>xs[i]\<close>\<close>

definition item :: "'a list \<Rightarrow> nat \<Rightarrow> exn + 'a" where
  "item xs i = (if i < length xs then Inr (xs ! i) else Inl IndexError)"

text \<open>The generator \<^verbatim>\<open>pairwise\<close>: it yields pairs until \<^verbatim>\<open>itr.next()\<close> raises
  StopIteration, which ends a Python 2 generator; a last element without a partner is
  dropped.\<close>

fun pairwise :: "'a list \<Rightarrow> ('a \<times> 'a) list" where
  "pairwise (a # b # xs) = (a, b) # pairwise xs"
| "pairwise xs = []"

subsection \<open>Tools\<close>

text \<open>The keyword arguments \<^verbatim>\<open>args\<close> that \<^verbatim>\<open>from_line\<close> collects; a key that is
  absent is \<open>None\<close>, as \<^verbatim>\<open>kwargs.get\<close> reads it.\<close>

record 'v kwargs =
  number :: "int option"
  feed_rate :: "'v option"
  retract_rate :: "'v option"
  rpm :: "'v option"
  diameter :: "'v option"
  max_hit_count :: "'v option"
  depth_offset :: "'v option"

record 'v ExcellonTool = "'v kwargs" +
  units :: string
  hit_count :: int

text \<open>\<^verbatim>\<open>FileSettings(units, format, zero_suppression, notation)\<close> of gerber/cnc.py, read
  by key. The field \<open>notation'\<close> is the key \<^verbatim>\<open>notation\<close>.\<close>

record FileSettings =
  notation' :: string
  units :: string
  zero_suppression :: string
  format :: "nat \<times> nat"

definition no_args :: "'v kwargs" where
  "no_args = \<lparr>number = None, feed_rate = None, retract_rate = None, rpm = None,
     diameter = None, max_hit_count = None, depth_offset = None\<rparr>"

text \<open>\<^verbatim>\<open>ExcellonTool.__init__(self, settings, **kwargs)\<close>\<close>

definition ExcellonTool_init :: "FileSettings \<Rightarrow> 'v kwargs \<Rightarrow> 'v ExcellonTool" where
  "ExcellonTool_init settings kw =
     \<lparr>number = number kw, feed_rate = feed_rate kw, retract_rate = retract_rate kw,
      rpm = rpm kw, diameter = diameter kw, max_hit_count = max_hit_count kw,
      depth_offset = depth_offset kw,
      ExcellonTool.units = FileSettings.units settings, hit_count = 0\<rparr>"

text \<open>\<^verbatim>\<open>ExcellonTool._hit\<close>\<close>

definition hit :: "'v ExcellonTool \<Rightarrow> 'v ExcellonTool" where
  "hit tool = tool\<lparr>hit_count := hit_count tool + 1\<rparr>"

text \<open>One round of the loop of \<^verbatim>\<open>from_line\<close> over the commands.\<close>

definition from_line_arg ::
  "('v::{times,numeral}) codec \<Rightarrow> nat \<times> nat \<Rightarrow> string \<Rightarrow> string \<times> string \<Rightarrow> 'v kwargs
     \<Rightarrow> exn + 'v kwargs" where
  "from_line_arg pgv fmt zs cv args =
     (let cmd = fst cv; val = snd cv in
      if cmd = ''B'' then
        (case pgv val fmt zs of Inl e \<Rightarrow> Inl e | Inr v \<Rightarrow> Inr (args\<lparr>retract_rate := Some v\<rparr>))
      else if cmd = ''C'' then
        (case pgv val fmt zs of Inl e \<Rightarrow> Inl e | Inr v \<Rightarrow> Inr (args\<lparr>diameter := Some v\<rparr>))
      else if cmd = ''F'' then
        (case pgv val fmt zs of Inl e \<Rightarrow> Inl e | Inr v \<Rightarrow> Inr (args\<lparr>feed_rate := Some v\<rparr>))
      else if cmd = ''H'' then
        (case pgv val fmt zs of Inl e \<Rightarrow> Inl e | Inr v \<Rightarrow> Inr (args\<lparr>max_hit_count := Some v\<rparr>))
      else if cmd = ''S'' then
        (case pgv val fmt zs of Inl e \<Rightarrow> Inl e | Inr v \<Rightarrow> Inr (args\<lparr>rpm := Some (1000 * v)\<rparr>))
      else if cmd = ''T'' then
        (case py_int val of Inl e \<Rightarrow> Inl e | Inr n \<Rightarrow> Inr (args\<lparr>number := Some n\<rparr>))
      else if cmd = ''Z'' then
        (case pgv val fmt zs of Inl e \<Rightarrow> Inl e | Inr v \<Rightarrow> Inr (args\<lparr>depth_offset := Some v\<rparr>))
      else Inr args)"

fun from_line_loop ::
  "('v::{times,numeral}) codec \<Rightarrow> nat \<times> nat \<Rightarrow> string \<Rightarrow> (string \<times> string) list \<Rightarrow> 'v kwargs
     \<Rightarrow> exn + 'v kwargs" where
  "from_line_loop pgv fmt zs [] args = Inr args"
| "from_line_loop pgv fmt zs (cv # cvs) args =
     (case from_line_arg pgv fmt zs cv args of
        Inl e \<Rightarrow> Inl e
      | Inr args' \<Rightarrow> from_line_loop pgv fmt zs cvs args')"

text \<open>\<^verbatim>\<open>ExcellonTool.from_line(cls, line, settings)\<close>\<close>

definition from_line ::
  "('v::{times,numeral}) codec \<Rightarrow> string \<Rightarrow> FileSettings \<Rightarrow> exn + 'v ExcellonTool" where
  "from_line pgv line settings =
     (let commands = pairwise (tl (re_split ''BCFHSTZ'' line));
          fmt = FileSettings.format settings;
          zs = FileSettings.zero_suppression settings
      in case from_line_loop pgv fmt zs commands no_args of
           Inl e \<Rightarrow> Inl e
         | Inr args \<Rightarrow> Inr (ExcellonTool_init settings args))"

subsection \<open>The parser\<close>

text \<open>
  The attributes of \<^verbatim>\<open>ExcellonParser\<close>, the first four being those of which
  \<^verbatim>\<open>_settings\<close> takes its snapshot. The parser is the one \<^verbatim>\<open>read\<close> builds,
  \<^verbatim>\<open>ExcellonParser()\<close>, whose \<^verbatim>\<open>ctx\<close> is None.
  \<^item> \<open>tools\<close> is the dictionary from tool numbers to tool objects; its keys are the
    \<^verbatim>\<open>tool.number\<close> of the tools, which \<^verbatim>\<open>kwargs.get\<close> may leave None.
  \<^item> A hit is the tuple \<^verbatim>\<open>(self.active_tool, self.pos)\<close>: a reference to a tool, or
    None, and a reference to a list.
  \<^item> \<open>zeros\<close> is the attribute \<^verbatim>\<open>self.zeros\<close>, which does not exist until a line
    assigns it.
  \<^item> \<open>tool_objs\<close> and \<open>list_objs\<close> are the store: the tool at each address, and the
    two items of the list at each address. The only list is created as
    \<^verbatim>\<open>[0., 0.]\<close> and changed by item assignment alone, so it always has two items.
    \<open>next_addr\<close> is the first address not in use.
\<close>

record 'v ExcellonParser = FileSettings +
  state :: string
  tools :: "int option \<rightharpoonup> addr"
  hits :: "(addr option \<times> addr) list"
  active_tool :: "addr option"
  pos :: addr
  zeros :: "string option"
  tool_objs :: "addr \<rightharpoonup> 'v ExcellonTool"
  list_objs :: "addr \<rightharpoonup> 'v \<times> 'v"
  next_addr :: addr

text \<open>\<^verbatim>\<open>ExcellonParser.__init__(self, ctx=None)\<close>\<close>

definition ExcellonParser_init :: "('v::zero) ExcellonParser" where
  "ExcellonParser_init =
     \<lparr>notation' = ''absolute'', units = ''inch'', zero_suppression = ''trailing'',
      format = (2, 5), state = ''INIT'', tools = Map.empty, hits = [],
      active_tool = None, pos = 0, zeros = None, tool_objs = Map.empty,
      list_objs = [0 \<mapsto> (0, 0)], next_addr = 1\<rparr>"

text \<open>\<^verbatim>\<open>ExcellonParser._settings\<close>\<close>

definition settings :: "'v ExcellonParser \<Rightarrow> FileSettings" where
  "settings self =
     \<lparr>notation' = notation' self, units = units self,
      zero_suppression = zero_suppression self, format = format self\<rparr>"

text \<open>An object is changed in place: every reference to it sees the change. (A
  reference of Python always has its object.)\<close>

definition update_obj :: "(addr \<rightharpoonup> 'a) \<Rightarrow> addr \<Rightarrow> ('a \<Rightarrow> 'a) \<Rightarrow> (addr \<rightharpoonup> 'a)" where
  "update_obj store a f = (case store a of None \<Rightarrow> store | Some obj \<Rightarrow> store(a \<mapsto> f obj))"

text \<open>Lines 202 to 212 of \<^verbatim>\<open>_parse\<close>: the phase. \<^verbatim>\<open>line[0]\<close> is evaluated, and
  raises on the empty string, when \<^verbatim>\<open>G05\<close> is not in the line.\<close>

definition set_state :: "'v ExcellonParser \<Rightarrow> string \<Rightarrow> exn option \<times> 'v ExcellonParser" where
  "set_state self line =
     (let self = (if contains ''M48'' line then self\<lparr>state := ''HEADER''\<rparr> else self);
          self = (if contains ''G00'' line then self\<lparr>state := ''ROUT''\<rparr> else self)
      in if contains ''G05'' line then (None, self\<lparr>state := ''DRILL''\<rparr>)
         else (case line of
                 [] \<Rightarrow> (Some IndexError, self)
               | c # cs \<Rightarrow>
                   if c = CHR ''%'' \<and> state self = ''HEADER''
                   then (None, self\<lparr>state := ''DRILL''\<rparr>)
                   else (None, self)))"

text \<open>Lines 214 to 218: the units.\<close>

definition set_units :: "'v ExcellonParser \<Rightarrow> string \<Rightarrow> 'v ExcellonParser" where
  "set_units self line =
     (if contains ''INCH'' line \<or> strip line = ''M72'' then self\<lparr>units := ''inch''\<rparr>
      else if contains ''METRIC'' line \<or> strip line = ''M71'' then self\<lparr>units := ''metric''\<rparr>
      else self)"

text \<open>Lines 220 to 224: the zero suppression directive assigns \<^verbatim>\<open>self.zeros\<close>.\<close>

definition set_zeros :: "'v ExcellonParser \<Rightarrow> string \<Rightarrow> 'v ExcellonParser" where
  "set_zeros self line =
     (if contains ''LZ'' line then self\<lparr>zeros := Some ''L''\<rparr>
      else if contains ''TZ'' line then self\<lparr>zeros := Some ''T''\<rparr>
      else self)"

text \<open>Lines 226 to 230: the notation; \<^verbatim>\<open>and\<close> binds tighter than \<^verbatim>\<open>or\<close>.\<close>

definition set_notation :: "'v ExcellonParser \<Rightarrow> string \<Rightarrow> 'v ExcellonParser" where
  "set_notation self line =
     (let self = (if contains ''ICI'' line \<and> contains ''ON'' line \<or> strip line = ''G91''
                  then self\<lparr>notation' := ''incremental''\<rparr> else self)
      in if contains ''ICI'' line \<and> contains ''OFF'' line \<or> strip line = ''G90''
         then self\<lparr>notation' := ''incremental''\<rparr> else self)"

text \<open>Lines 202 to 230 together: what a line does before it is looked at as a tool
  line or a coordinate line.\<close>

definition directives :: "'v ExcellonParser \<Rightarrow> string \<Rightarrow> exn option \<times> 'v ExcellonParser" where
  "directives self line =
     (case set_state self line of
        (Some e, self) \<Rightarrow> (Some e, self)
      | (None, self) \<Rightarrow> (None, set_notation (set_zeros (set_units self line) line) line))"

text \<open>Line 241: the number a tool selection line gives,
  \<^verbatim>\<open>int(line.strip().split('T')[1])\<close>.\<close>

definition tool_number :: "string \<Rightarrow> exn + int" where
  "tool_number line =
     (case item (split CHR ''T'' (strip line)) 1 of
        Inl e \<Rightarrow> Inl e
      | Inr s \<Rightarrow> py_int s)"

text \<open>Lines 236 to 241: a tool definition in the header, a tool selection elsewhere
  (a missing key of the tool table raises KeyError). The new tool object takes the first
  free address.\<close>

definition tool_line ::
  "('v::{times,numeral}) codec \<Rightarrow> 'v ExcellonParser \<Rightarrow> string \<Rightarrow> exn option \<times> 'v ExcellonParser" where
  "tool_line pgv self line =
     (case item line 0 of
        Inl e \<Rightarrow> (Some e, self)
      | Inr c \<Rightarrow>
          if c = CHR ''T'' \<and> state self = ''HEADER'' then
            (case from_line pgv line (settings self) of
               Inl e \<Rightarrow> (Some e, self)
             | Inr tool \<Rightarrow>
                 (None, self\<lparr>tool_objs := (tool_objs self)(next_addr self \<mapsto> tool),
                              next_addr := next_addr self + 1,
                              tools := (tools self)(number tool \<mapsto> next_addr self)\<rparr>))
          else if c = CHR ''T'' \<and> state self \<noteq> ''HEADER'' then
            (case tool_number line of
               Inl e \<Rightarrow> (Some e, self)
             | Inr n \<Rightarrow>
                 (case tools self (Some n) of
                    None \<Rightarrow> (Some KeyError, self)
                  | Some tool \<Rightarrow> (None, self\<lparr>active_tool := Some tool\<rparr>)))
          else (None, self))"

text \<open>Lines 244 to 252: the values of the axes a coordinate line gives, \<open>c\<close> being
  \<^verbatim>\<open>line[0]\<close>.\<close>

definition coord_values ::
  "'v codec \<Rightarrow> nat \<times> nat \<Rightarrow> string \<Rightarrow> char \<Rightarrow> string \<Rightarrow> exn + ('v option \<times> 'v option)" where
  "coord_values pgv fmt zs c line =
     (if c = CHR ''X'' then
        (let splitline = split CHR ''Y'' (strip_chars ''X'' line) in
         case item splitline 0 of
           Inl e \<Rightarrow> Inl e
         | Inr s0 \<Rightarrow>
             (case pgv (strip s0) fmt zs of
                Inl e \<Rightarrow> Inl e
              | Inr x \<Rightarrow>
                  if length splitline = 2 then
                    (case pgv (strip (splitline ! 1)) fmt zs of
                       Inl e \<Rightarrow> Inl e
                     | Inr y \<Rightarrow> Inr (Some x, Some y))
                  else Inr (Some x, None)))
      else
        (case pgv (strip_chars '' Y'' line) fmt zs of
           Inl e \<Rightarrow> Inl e
         | Inr y \<Rightarrow> Inr (None, Some y)))"

text \<open>Lines 253 to 262, on the two items of the list \<^verbatim>\<open>self.pos\<close>.\<close>

definition move :: "string \<Rightarrow> ('v::plus) option \<Rightarrow> 'v option \<Rightarrow> 'v \<times> 'v \<Rightarrow> 'v \<times> 'v" where
  "move notation x y p =
     (if notation = ''absolute'' then
        (let p = (case x of None \<Rightarrow> p | Some v \<Rightarrow> (v, snd p))
         in (case y of None \<Rightarrow> p | Some v \<Rightarrow> (fst p, v)))
      else
        (let p = (case x of None \<Rightarrow> p | Some v \<Rightarrow> (fst p + v, snd p))
         in (case y of None \<Rightarrow> p | Some v \<Rightarrow> (fst p, snd p + v))))"

text \<open>Lines 263 to 265: the hit. The tuple appended holds \<^verbatim>\<open>self.pos\<close>, the list
  itself; \<^verbatim>\<open>self.active_tool._hit()\<close> raises AttributeError on None.\<close>

definition drill :: "'v ExcellonParser \<Rightarrow> exn option \<times> 'v ExcellonParser" where
  "drill self =
     (let self = self\<lparr>hits := hits self @ [(active_tool self, pos self)]\<rparr> in
      case active_tool self of
        None \<Rightarrow> (Some AttributeError, self)
      | Some tool \<Rightarrow> (None, self\<lparr>tool_objs := update_obj (tool_objs self) tool hit\<rparr>))"

text \<open>Lines 243 to 265: a coordinate line.\<close>

definition coord_line ::
  "('v::plus) codec \<Rightarrow> nat \<times> nat \<Rightarrow> string \<Rightarrow> 'v ExcellonParser \<Rightarrow> string
     \<Rightarrow> exn option \<times> 'v ExcellonParser" where
  "coord_line pgv fmt zs self line =
     (case item line 0 of
        Inl e \<Rightarrow> (Some e, self)
      | Inr c \<Rightarrow>
          if c \<in> set [CHR ''X'', CHR ''Y''] then
            (case coord_values pgv fmt zs c line of
               Inl e \<Rightarrow> (Some e, self)
             | Inr (x, y) \<Rightarrow>
                 (let self = self\<lparr>list_objs :=
                        update_obj (list_objs self) (pos self) (move (notation' self) x y)\<rparr>
                  in if state self = ''DRILL'' then drill self else (None, self)))
          else (None, self))"

text \<open>\<^verbatim>\<open>ExcellonParser._parse(self, line)\<close>\<close>

definition parse_line ::
  "('v::{plus,times,numeral}) codec \<Rightarrow> 'v ExcellonParser \<Rightarrow> string
     \<Rightarrow> exn option \<times> 'v ExcellonParser" where
  "parse_line pgv self line =
     (case directives self line of
        (Some e, self) \<Rightarrow> (Some e, self)
      | (None, self) \<Rightarrow>
          (let zs = FileSettings.zero_suppression (settings self);
               fmt = FileSettings.format (settings self)
           in case tool_line pgv self line of
                (Some e, self) \<Rightarrow> (Some e, self)
              | (None, self) \<Rightarrow> coord_line pgv fmt zs self line))"

text \<open>The loop of \<^verbatim>\<open>ExcellonParser.parse\<close> over the lines of the file: the first
  exception ends it.\<close>

fun parse_lines ::
  "('v::{plus,times,numeral}) codec \<Rightarrow> 'v ExcellonParser \<Rightarrow> string list
     \<Rightarrow> exn option \<times> 'v ExcellonParser" where
  "parse_lines pgv self [] = (None, self)"
| "parse_lines pgv self (line # rest) =
     (case parse_line pgv self line of
        (Some e, self') \<Rightarrow> (Some e, self')
      | (None, self') \<Rightarrow> parse_lines pgv self' rest)"

subsection \<open>A decoder\<close>

text \<open>
  Modelled from the spec: \<^verbatim>\<open>parse_gerber_value\<close>, of gerber/utils.py, which is not
  among the sources. It is the decoder of the spec's section 4.1, on the reals: a token
  with a decimal point is read as it stands; another is a string of at most
  \<open>integer_digits + decimal_digits\<close> digits, padded with zeros on the right (trailing
  suppression) or on the left (leading suppression), with the decimal point
  \<open>decimal_digits\<close> places from the right; a sign in front is reapplied to the value.
  The theorems below hold for every decoder; this one is the decoder of their examples.
\<close>

definition decode :: "real codec" where
  "decode token fmt zs =
     (let neg = startswith ''-'' token;
          body = (if startswith ''-'' token \<or> startswith ''+'' token then tl token else token);
          width = fst fmt + snd fmt;
          signed = (\<lambda>r. if neg then - r else r)
      in if CHR ''.'' \<in> set body then
           (case split CHR ''.'' body of
              [ip, fp] \<Rightarrow>
                if list_all isdigit (ip @ fp) \<and> ip @ fp \<noteq> []
                then Inr (signed (real (digits_val ip) + real (digits_val fp) / 10 ^ length fp))
                else Inl ValueError
            | _ \<Rightarrow> Inl ValueError)
         else if \<not> list_all isdigit body \<or> width < length body then Inl ValueError
         else if zs = ''trailing'' then
           Inr (signed (real (digits_val (body @ replicate (width - length body) CHR ''0''))
                        / 10 ^ snd fmt))
         else if zs = ''leading'' \<or> length body = width then
           Inr (signed (real (digits_val body) / 10 ^ snd fmt))
         else Inl ValueError)"

subsection \<open>Notions the properties are stated with\<close>

text \<open>The position a hit shows: the items of the list its tuple refers to, as
  \<^verbatim>\<open>ExcellonFile.render\<close> reads them (\<^verbatim>\<open>pos[0]\<close>, \<^verbatim>\<open>pos[1]\<close>).\<close>

definition hit_position :: "'v ExcellonParser \<Rightarrow> addr option \<times> addr \<Rightarrow> ('v \<times> 'v) option" where
  "hit_position self h = list_objs self (snd h)"

text \<open>A coordinate line that is processed in the DRILL phase: its first character is
  \<^verbatim>\<open>X\<close> or \<^verbatim>\<open>Y\<close>, and the phase is DRILL once the line's own markers are applied
  (line 263 reads \<^verbatim>\<open>self.state\<close> after lines 202 to 212 have set it).\<close>

definition is_drill_line :: "'v ExcellonParser \<Rightarrow> string \<Rightarrow> bool" where
  "is_drill_line self line \<longleftrightarrow>
     (startswith ''X'' line \<or> startswith ''Y'' line) \<and> state (snd (directives self line)) = ''DRILL''"

text \<open>Along a run over some lines: the number of coordinate lines processed in the
  DRILL phase, and the tool that is active as each of them arrives, in the order of the
  lines.\<close>

fun drill_count :: "('v::{plus,times,numeral}) codec \<Rightarrow> 'v ExcellonParser \<Rightarrow> string list \<Rightarrow> nat" where
  "drill_count pgv self [] = 0"
| "drill_count pgv self (line # rest) =
     (if is_drill_line self line then 1 else 0) + drill_count pgv (snd (parse_line pgv self line)) rest"

fun drill_tools ::
  "('v::{plus,times,numeral}) codec \<Rightarrow> 'v ExcellonParser \<Rightarrow> string list \<Rightarrow> addr option list" where
  "drill_tools pgv self [] = []"
| "drill_tools pgv self (line # rest) =
     (if is_drill_line self line then [active_tool self] else [])
       @ drill_tools pgv (snd (parse_line pgv self line)) rest"

text \<open>The references of a parser are consistent: no object lies at or beyond the first
  free address, the active tool, the tools of the table and the tools of the hits are
  objects of the store, and the counter of each tool is the number of hits that refer to
  it.\<close>

definition consistent :: "'v ExcellonParser \<Rightarrow> bool" where
  "consistent s \<longleftrightarrow>
     (\<forall>a. next_addr s \<le> a \<longrightarrow> tool_objs s a = None) \<and>
     (\<forall>a. active_tool s = Some a \<longrightarrow> tool_objs s a \<noteq> None) \<and>
     (\<forall>k a. tools s k = Some a \<longrightarrow> tool_objs s a \<noteq> None) \<and>
     (\<forall>h a. h \<in> set (hits s) \<longrightarrow> fst h = Some a \<longrightarrow> tool_objs s a \<noteq> None) \<and>
     (\<forall>a t. tool_objs s a = Some t \<longrightarrow>
        hit_count t = int (length (filter (\<lambda>h. fst h = Some a) (hits s))))"

subsection \<open>Example runs\<close>

text \<open>Runs of the parser \<^verbatim>\<open>ExcellonParser()\<close> with the decoder above, on lines written as
  in the spec's scenario (no newline at their ends): a header that ends with no tool
  selected; a header that defines a tool; a job of three hits with two tools; its
  beginning up to the first hit; a parser moved to (1, 2), in absolute notation and then
  switched to incremental notation; a parser in the DRILL phase with no tool, in
  incremental notation, at (1, 2); and a parser in the header, with a tool defined, in
  incremental notation, at (1, 2).\<close>

definition header_only :: "real ExcellonParser" where
  "header_only = snd (parse_lines decode ExcellonParser_init [''M48'', ''%''])"

definition tool_defined :: "real ExcellonParser" where
  "tool_defined = snd (parse_lines decode ExcellonParser_init [''M48'', ''T01C0.0100''])"

definition job :: "string list" where
  "job = [''M48'', ''T01C0.0100'', ''T02C0.0200'', ''%'', ''T01'', ''X01Y01'', ''X02'', ''T02'', ''Y03'']"

definition job_done :: "real ExcellonParser" where
  "job_done = snd (parse_lines decode ExcellonParser_init job)"

definition one_hit :: "real ExcellonParser" where
  "one_hit = snd (parse_lines decode ExcellonParser_init
     [''M48'', ''T01C0.0100'', ''%'', ''T01'', ''X01Y01''])"

definition at_1_2 :: "real ExcellonParser" where
  "at_1_2 = snd (parse_lines decode ExcellonParser_init [''X010000Y020000''])"

definition incremental_at_1_2 :: "real ExcellonParser" where
  "incremental_at_1_2 =
     snd (parse_lines decode ExcellonParser_init [''X010000Y020000'', ''ICI,ON''])"

definition no_tool_incremental :: "real ExcellonParser" where
  "no_tool_incremental =
     snd (parse_lines decode ExcellonParser_init [''M48'', ''ICI,ON'', ''X01Y02'', ''%''])"

definition header_incremental :: "real ExcellonParser" where
  "header_incremental =
     snd (parse_lines decode ExcellonParser_init [''M48'', ''T01C0.0100'', ''ICI,ON'', ''X01Y02''])"

section \<open>Properties\<close>

subsection \<open>What each part of a line's processing leaves alone\<close>

lemma set_state_frame [simp]:
  "units (snd (set_state s l)) = units s"
  "notation' (snd (set_state s l)) = notation' s"
  "zero_suppression (snd (set_state s l)) = zero_suppression s"
  "format (snd (set_state s l)) = format s"
  "tools (snd (set_state s l)) = tools s"
  "hits (snd (set_state s l)) = hits s"
  "active_tool (snd (set_state s l)) = active_tool s"
  "pos (snd (set_state s l)) = pos s"
  "zeros (snd (set_state s l)) = zeros s"
  "tool_objs (snd (set_state s l)) = tool_objs s"
  "list_objs (snd (set_state s l)) = list_objs s"
  "next_addr (snd (set_state s l)) = next_addr s"
  by (simp_all add: set_state_def Let_def split: list.splits)

lemma set_state_ok: "l \<noteq> [] \<Longrightarrow> fst (set_state s l) = None"
  by (cases l) (simp_all add: set_state_def Let_def)

lemma set_state_empty: "set_state s [] = (Some IndexError, s)"
  by (simp add: set_state_def)

lemma set_units_frame [simp]:
  "state (set_units s l) = state s"
  "notation' (set_units s l) = notation' s"
  "zero_suppression (set_units s l) = zero_suppression s"
  "format (set_units s l) = format s"
  "tools (set_units s l) = tools s"
  "hits (set_units s l) = hits s"
  "active_tool (set_units s l) = active_tool s"
  "pos (set_units s l) = pos s"
  "zeros (set_units s l) = zeros s"
  "tool_objs (set_units s l) = tool_objs s"
  "list_objs (set_units s l) = list_objs s"
  "next_addr (set_units s l) = next_addr s"
  by (simp_all add: set_units_def)

lemma set_zeros_frame [simp]:
  "state (set_zeros s l) = state s"
  "units (set_zeros s l) = units s"
  "notation' (set_zeros s l) = notation' s"
  "zero_suppression (set_zeros s l) = zero_suppression s"
  "format (set_zeros s l) = format s"
  "tools (set_zeros s l) = tools s"
  "hits (set_zeros s l) = hits s"
  "active_tool (set_zeros s l) = active_tool s"
  "pos (set_zeros s l) = pos s"
  "tool_objs (set_zeros s l) = tool_objs s"
  "list_objs (set_zeros s l) = list_objs s"
  "next_addr (set_zeros s l) = next_addr s"
  by (simp_all add: set_zeros_def)

lemma set_notation_frame [simp]:
  "state (set_notation s l) = state s"
  "units (set_notation s l) = units s"
  "zero_suppression (set_notation s l) = zero_suppression s"
  "format (set_notation s l) = format s"
  "tools (set_notation s l) = tools s"
  "hits (set_notation s l) = hits s"
  "active_tool (set_notation s l) = active_tool s"
  "pos (set_notation s l) = pos s"
  "zeros (set_notation s l) = zeros s"
  "tool_objs (set_notation s l) = tool_objs s"
  "list_objs (set_notation s l) = list_objs s"
  "next_addr (set_notation s l) = next_addr s"
  by (simp_all add: set_notation_def Let_def)

lemma set_notation_incremental:
  "contains ''ICI'' l \<and> contains ''ON'' l \<or> strip l = ''G91'' \<or>
   contains ''ICI'' l \<and> contains ''OFF'' l \<or> strip l = ''G90''
   \<Longrightarrow> notation' (set_notation s l) = ''incremental''"
  by (auto simp add: set_notation_def Let_def)

lemma directives_empty: "directives s [] = (Some IndexError, s)"
  by (simp add: directives_def set_state_empty)

lemma directives_nonempty:
  "l \<noteq> [] \<Longrightarrow>
   directives s l = (None, set_notation (set_zeros (set_units (snd (set_state s l)) l) l) l)"
  using set_state_ok [of l s]
  by (cases "set_state s l") (simp add: directives_def)

lemma directives_frame [simp]:
  "zero_suppression (snd (directives s l)) = zero_suppression s"
  "format (snd (directives s l)) = format s"
  "tools (snd (directives s l)) = tools s"
  "hits (snd (directives s l)) = hits s"
  "active_tool (snd (directives s l)) = active_tool s"
  "pos (snd (directives s l)) = pos s"
  "tool_objs (snd (directives s l)) = tool_objs s"
  "list_objs (snd (directives s l)) = list_objs s"
  "next_addr (snd (directives s l)) = next_addr s"
  by (cases "l = []"; simp add: directives_empty directives_nonempty)+

lemma directives_notation:
  "contains ''ICI'' l \<and> contains ''ON'' l \<or> strip l = ''G91'' \<or>
   contains ''ICI'' l \<and> contains ''OFF'' l \<or> strip l = ''G90''
   \<Longrightarrow> notation' (snd (directives s l)) = ''incremental''"
  by (cases "l = []") (auto simp add: directives_nonempty strip_def intro!: set_notation_incremental)

lemma tool_line_frame [simp]:
  "state (snd (tool_line pgv s l)) = state s"
  "units (snd (tool_line pgv s l)) = units s"
  "notation' (snd (tool_line pgv s l)) = notation' s"
  "zero_suppression (snd (tool_line pgv s l)) = zero_suppression s"
  "format (snd (tool_line pgv s l)) = format s"
  "hits (snd (tool_line pgv s l)) = hits s"
  "pos (snd (tool_line pgv s l)) = pos s"
  "zeros (snd (tool_line pgv s l)) = zeros s"
  "list_objs (snd (tool_line pgv s l)) = list_objs s"
  by (simp_all add: tool_line_def split: sum.splits option.splits)

lemma tool_line_other:
  "item l 0 = Inr c \<Longrightarrow> c \<noteq> CHR ''T'' \<Longrightarrow> tool_line pgv s l = (None, s)"
  by (simp add: tool_line_def)

lemma coord_line_frame [simp]:
  "state (snd (coord_line pgv fmt zs s l)) = state s"
  "units (snd (coord_line pgv fmt zs s l)) = units s"
  "notation' (snd (coord_line pgv fmt zs s l)) = notation' s"
  "zero_suppression (snd (coord_line pgv fmt zs s l)) = zero_suppression s"
  "format (snd (coord_line pgv fmt zs s l)) = format s"
  "tools (snd (coord_line pgv fmt zs s l)) = tools s"
  "active_tool (snd (coord_line pgv fmt zs s l)) = active_tool s"
  "pos (snd (coord_line pgv fmt zs s l)) = pos s"
  "zeros (snd (coord_line pgv fmt zs s l)) = zeros s"
  "next_addr (snd (coord_line pgv fmt zs s l)) = next_addr s"
  by (simp_all add: coord_line_def drill_def Let_def split: sum.splits option.splits prod.splits)


lemma parse_line_unfold:
  "parse_line pgv s l =
     (let s1 = snd (directives s l); t = tool_line pgv s1 l in
      if fst (directives s l) \<noteq> None then (fst (directives s l), s1)
      else if fst t \<noteq> None then t
      else coord_line pgv (format s) (zero_suppression s) (snd t) l)"
proof -
  obtain r s1 where d: "directives s l = (r, s1)"
    by (cases "directives s l")
  have s1: "s1 = snd (directives s l)"
    by (simp add: d)
  have f: "format s1 = format s" "zero_suppression s1 = zero_suppression s"
    unfolding s1 by simp_all
  obtain r2 s2 where t: "tool_line pgv s1 l = (r2, s2)"
    by (cases "tool_line pgv s1 l")
  show ?thesis
    by (cases r; cases r2) (simp_all add: parse_line_def d t settings_def f)
qed

lemma parse_line_snd:
  "snd (parse_line pgv s l) =
     (let s1 = snd (directives s l); t = tool_line pgv s1 l in
      if fst (directives s l) \<noteq> None then s1
      else if fst t \<noteq> None then snd t
      else snd (coord_line pgv (format s) (zero_suppression s) (snd t) l))"
  by (simp add: parse_line_unfold Let_def)

lemma parse_line_fst:
  "fst (parse_line pgv s l) =
     (let s1 = snd (directives s l); t = tool_line pgv s1 l in
      if fst (directives s l) \<noteq> None then fst (directives s l)
      else if fst t \<noteq> None then fst t
      else fst (coord_line pgv (format s) (zero_suppression s) (snd t) l))"
  by (simp add: parse_line_unfold Let_def)

lemma parse_line_frame [simp]:
  "zero_suppression (snd (parse_line pgv s l)) = zero_suppression s"
  "format (snd (parse_line pgv s l)) = format s"
  "pos (snd (parse_line pgv s l)) = pos s"
  "notation' (snd (parse_line pgv s l)) = notation' (snd (directives s l))"
  "state (snd (parse_line pgv s l)) = state (snd (directives s l))"
  "units (snd (parse_line pgv s l)) = units (snd (directives s l))"
  "zeros (snd (parse_line pgv s l)) = zeros (snd (directives s l))"
  by (simp_all add: parse_line_snd Let_def)

lemma parse_line_coord:
  assumes "item l 0 = Inr c" and "c \<in> set [CHR ''X'', CHR ''Y'']"
  shows "parse_line pgv s l =
           coord_line pgv (format s) (zero_suppression s) (snd (directives s l)) l"
proof -
  from assms have ne: "l \<noteq> []" and c: "c \<noteq> CHR ''T''"
    by (auto simp add: item_def)
  have "fst (directives s l) = None"
    using ne by (simp add: directives_nonempty)
  moreover have "tool_line pgv (snd (directives s l)) l = (None, snd (directives s l))"
    using assms(1) c by (rule tool_line_other)
  ultimately show ?thesis
    by (simp add: parse_line_unfold Let_def)
qed

subsection \<open>Consistency of the references\<close>

lemma item0_startswith:
  "(startswith ''X'' l \<or> startswith ''Y'' l) \<longleftrightarrow> (\<exists>c. item l 0 = Inr c \<and> c \<in> set [CHR ''X'', CHR ''Y''])"
  by (cases l) (auto simp add: item_def)

lemma consistent_init: "consistent ExcellonParser_init"
  by (simp add: consistent_def ExcellonParser_init_def)

lemma consistent_directives: "consistent (snd (directives s l)) = consistent s"
  by (simp add: consistent_def)

lemma consistent_tool_line:
  assumes "consistent s"
  shows "consistent (snd (tool_line pgv s l))"
proof (cases "item l 0")
  case (Inl e)
  then show ?thesis using assms by (simp add: tool_line_def)
next
  case (Inr c)
  show ?thesis
  proof (cases "c = CHR ''T''")
    case False
    then show ?thesis using assms Inr by (simp add: tool_line_other)
  next
    case True
    show ?thesis
    proof (cases "state s = ''HEADER''")
      case True
      show ?thesis
      proof (cases "from_line pgv l (settings s)")
        case (Inl e)
        then show ?thesis using assms Inr \<open>c = CHR ''T''\<close> True by (simp add: tool_line_def)
      next
        case (Inr tool)
        have hc: "hit_count tool = 0"
          using Inr by (auto simp add: from_line_def ExcellonTool_init_def Let_def split: sum.splits)
        have fresh: "tool_objs s (next_addr s) = None"
          using assms by (simp add: consistent_def)
        have nohit: "filter (\<lambda>h. fst h = Some (next_addr s)) (hits s) = []"
          using assms fresh by (auto simp add: consistent_def filter_empty_conv)
        have eq: "snd (tool_line pgv s l) =
            s\<lparr>tool_objs := (tool_objs s)(next_addr s \<mapsto> tool), next_addr := next_addr s + 1,
              tools := (tools s)(number tool \<mapsto> next_addr s)\<rparr>"
          using Inr \<open>item l 0 = Inr c\<close> \<open>c = CHR ''T''\<close> True by (simp add: tool_line_def)
        show ?thesis
          unfolding eq using assms hc nohit fresh
          by (auto simp add: consistent_def)
      qed
    next
      case False
      then show ?thesis
        using assms Inr True
        by (auto simp add: tool_line_def consistent_def split: sum.splits option.splits)
    qed
  qed
qed


lemma drill_consistent:
  assumes "consistent s"
  shows "consistent (snd (drill s))"
proof (cases "active_tool s")
  case None
  then show ?thesis using assms by (auto simp add: drill_def consistent_def)
next
  case (Some a)
  then obtain t where t: "tool_objs s a = Some t"
    using assms by (auto simp add: consistent_def)
  have eq: "snd (drill s) =
      s\<lparr>hits := hits s @ [(Some a, pos s)], tool_objs := (tool_objs s)(a \<mapsto> hit t)\<rparr>"
    using Some t by (simp add: drill_def update_obj_def)
  show ?thesis
    unfolding eq using assms t
    by (auto simp add: consistent_def hit_def)
qed

lemma consistent_list_objs: "consistent (s\<lparr>list_objs := m\<rparr>) = consistent s"
  by (simp add: consistent_def)

lemma consistent_coord_line:
  assumes "consistent s"
  shows "consistent (snd (coord_line pgv fmt zs s l))"
  using assms
  by (auto simp add: coord_line_def Let_def consistent_list_objs
           intro!: drill_consistent split: sum.splits)

lemma consistent_parse_line:
  assumes "consistent s"
  shows "consistent (snd (parse_line pgv s l))"
  using assms
  by (simp add: parse_line_snd Let_def consistent_directives consistent_tool_line
        consistent_coord_line)

lemma coord_line_other:
  "item l 0 = Inr c \<Longrightarrow> c \<notin> set [CHR ''X'', CHR ''Y''] \<Longrightarrow> coord_line pgv fmt zs s l = (None, s)"
  by (simp add: coord_line_def)

lemma coord_line_hits:
  assumes "item l 0 = Inr c" and "c \<in> set [CHR ''X'', CHR ''Y'']"
    and "fst (coord_line pgv fmt zs s l) = None"
  shows "hits (snd (coord_line pgv fmt zs s l)) =
           hits s @ (if state s = ''DRILL'' then [(active_tool s, pos s)] else [])"
  using assms
  by (auto simp add: coord_line_def drill_def Let_def split: sum.splits option.splits)

lemma parse_line_hits:
  assumes "fst (parse_line pgv s l) = None"
  shows "hits (snd (parse_line pgv s l)) =
           hits s @ (if is_drill_line s l then [(active_tool s, pos s)] else [])"
proof (cases "startswith ''X'' l \<or> startswith ''Y'' l")
  case True
  then obtain c where c: "item l 0 = Inr c" "c \<in> set [CHR ''X'', CHR ''Y'']"
    by (auto simp add: item0_startswith)
  have eq: "parse_line pgv s l =
      coord_line pgv (format s) (zero_suppression s) (snd (directives s l)) l"
    using c by (rule parse_line_coord)
  show ?thesis
    using assms True coord_line_hits [OF c, of pgv "format s" "zero_suppression s" "snd (directives s l)"]
    by (simp add: eq is_drill_line_def)
next
  case False
  have nd: "\<not> is_drill_line s l"
    using False by (simp add: is_drill_line_def)
  show ?thesis
  proof (cases "item l 0")
    case (Inl e)
    then have "l = []" by (simp add: item_def split: if_splits)
    then show ?thesis using assms by (simp add: parse_line_unfold directives_empty)
  next
    case (Inr c)
    then have "c \<notin> set [CHR ''X'', CHR ''Y'']"
      using False by (auto simp add: item0_startswith)
    then have "coord_line pgv fmt zs s' l = (None, s')" for fmt zs s'
      using Inr by (simp add: coord_line_other)
    then show ?thesis
      using nd by (simp add: parse_line_snd Let_def)
  qed
qed


lemma parse_lines_append:
  "parse_lines pgv s (xs @ ys) =
     (case parse_lines pgv s xs of
        (Some e, s1) \<Rightarrow> (Some e, s1)
      | (None, s1) \<Rightarrow> parse_lines pgv s1 ys)"
  by (induction xs arbitrary: s) (auto split: prod.splits option.splits)

lemma parse_lines_run:
  assumes "consistent s" and "parse_lines pgv s ls = (None, s')"
  shows "consistent s' \<and> pos s' = pos s \<and>
         hits s' = hits s @ map (\<lambda>a. (a, pos s)) (drill_tools pgv s ls) \<and>
         length (drill_tools pgv s ls) = drill_count pgv s ls"
  using assms
proof (induction ls arbitrary: s)
  case Nil
  then show ?case by simp
next
  case (Cons l ls)
  obtain r s1 where p: "parse_line pgv s l = (r, s1)"
    by (cases "parse_line pgv s l")
  with Cons.prems(2) have r: "r = None" and rest: "parse_lines pgv s1 ls = (None, s')"
    by (auto split: option.splits)
  have s1: "s1 = snd (parse_line pgv s l)" and ok: "fst (parse_line pgv s l) = None"
    using p r by simp_all
  have c1: "consistent s1"
    unfolding s1 using Cons.prems(1) by (rule consistent_parse_line)
  have h1: "hits s1 = hits s @ (if is_drill_line s l then [(active_tool s, pos s)] else [])"
    unfolding s1 using ok by (rule parse_line_hits)
  have p1: "pos s1 = pos s"
    unfolding s1 by simp
  from Cons.IH [OF c1 rest] show ?case
    by (simp add: h1 p1 s1 [symmetric])
qed

subsection \<open>Two things that no line changes\<close>

text \<open>No line assigns \<^verbatim>\<open>self.zero_suppression\<close>: it is \<^verbatim>\<open>'trailing'\<close> throughout every
  run of a new parser. And no line assigns \<^verbatim>\<open>self.pos\<close>, whose list every hit refers
  to: at any point of a run, every hit made so far shows the position of the cursor at
  that point.\<close>

lemma parse_lines_zero_suppression:
  "zero_suppression (snd (parse_lines pgv s ls)) = zero_suppression s"
proof (induction ls arbitrary: s)
  case Nil
  show ?case by simp
next
  case (Cons l ls)
  obtain r s1 where p: "parse_line pgv s l = (r, s1)"
    by (cases "parse_line pgv s l")
  have "zero_suppression s1 = zero_suppression s"
    using parse_line_frame(1) [of pgv s l] by (simp add: p)
  then show ?case
    using Cons.IH [of s1] by (cases r) (simp_all add: p)
qed

lemma zero_suppression_always_trailing:
  "zero_suppression (snd (parse_lines pgv ExcellonParser_init ls)) = ''trailing''"
  by (simp add: parse_lines_zero_suppression) (simp add: ExcellonParser_init_def)

lemma parse_line_hit_refs:
  "snd ` set (hits (snd (parse_line pgv s l))) \<subseteq> insert (pos s) (snd ` set (hits s))"
proof -
  have d: "snd ` set (hits (snd (drill s'))) \<subseteq> insert (pos s') (snd ` set (hits s'))" for s' :: "'a ExcellonParser"
    by (auto simp add: drill_def Let_def split: option.splits)
  have c: "snd ` set (hits (snd (coord_line pgv fmt zs s' l))) \<subseteq> insert (pos s') (snd ` set (hits s'))"
    for fmt zs and s' :: "'a ExcellonParser"
    using d [of "s'\<lparr>list_objs := m\<rparr>" for m]
    by (auto simp add: coord_line_def Let_def split: sum.splits)
  show ?thesis
    using c [of "format s" "zero_suppression s" "snd (tool_line pgv (snd (directives s l)) l)"]
    by (auto simp add: parse_line_snd Let_def)
qed

lemma parse_lines_hit_refs:
  "snd ` set (hits (snd (parse_lines pgv s ls))) \<subseteq> insert (pos s) (snd ` set (hits s))
   \<and> pos (snd (parse_lines pgv s ls)) = pos s"
proof (induction ls arbitrary: s)
  case Nil
  show ?case by auto
next
  case (Cons l ls)
  obtain r s1 where p: "parse_line pgv s l = (r, s1)"
    by (cases "parse_line pgv s l")
  have 1: "snd ` set (hits s1) \<subseteq> insert (pos s) (snd ` set (hits s))"
    using parse_line_hit_refs [of pgv s l] by (simp add: p)
  have 2: "pos s1 = pos s"
    using parse_line_frame(3) [of pgv s l] by (simp add: p)
  show ?case
  proof (cases r)
    case None
    have ih: "snd ` set (hits (snd (parse_lines pgv s1 ls))) \<subseteq> insert (pos s1) (snd ` set (hits s1))"
      and ihp: "pos (snd (parse_lines pgv s1 ls)) = pos s1"
      using Cons.IH [of s1] by simp_all
    have "snd ` set (hits (snd (parse_lines pgv s1 ls))) \<subseteq> insert (pos s) (snd ` set (hits s))"
      using ih 1 unfolding 2 by blast
    then show ?thesis
      using ihp 2 by (simp add: p None)
  next
    case (Some e)
    then show ?thesis
      using 1 2 by (simp add: p)
  qed
qed

lemma hits_share_the_cursor:
  assumes "h \<in> set (hits (snd (parse_lines pgv ExcellonParser_init ls)))"
  shows "hit_position (snd (parse_lines pgv ExcellonParser_init ls)) h =
           list_objs (snd (parse_lines pgv ExcellonParser_init ls))
             (pos (snd (parse_lines pgv ExcellonParser_init ls)))"
proof -
  let ?i = "ExcellonParser_init :: 'a ExcellonParser"
  have "hits ?i = []" by (simp add: ExcellonParser_init_def)
  then have "snd h = pos ?i"
    using assms parse_lines_hit_refs [of pgv ?i ls] by auto
  then show ?thesis
    using parse_lines_hit_refs [of pgv ?i ls] by (simp add: hit_position_def)
qed

subsection \<open>The phase of a line without markers\<close>

lemma directives_state_plain:
  assumes "\<not> contains ''M48'' l" and "\<not> contains ''G00'' l" and "\<not> contains ''G05'' l"
    and "\<not> startswith ''%'' l"
  shows "state (snd (directives s l)) = state s"
proof (cases l)
  case Nil
  then show ?thesis by (simp add: directives_empty)
next
  case (Cons c cs)
  have "set_state s l = (None, s)"
    using assms unfolding Cons by (simp add: set_state_def del: contains.simps)
  then show ?thesis
    using Cons by (simp add: directives_nonempty)
qed

subsection \<open>The values of a coordinate line\<close>

text \<open>What lines 244 to 252 read from a line, in terms of the decoder alone. On a line
  that starts with \<^verbatim>\<open>X\<close> the x value is the decoding of the first piece of
  \<^verbatim>\<open>line.strip('X').split('Y')\<close>, and there is a y value, the decoding of the second
  piece, when there are exactly two pieces; a line that starts with \<^verbatim>\<open>Y\<close> has no x
  value, and its y value is the decoding of \<^verbatim>\<open>line.strip(' Y')\<close>. And the notation in
  force is the one before the line when the line holds no notation directive.\<close>

lemma split_nonempty: "split sep s \<noteq> []"
  by (induction s) (simp_all add: Let_def)

lemma coord_values_decoded:
  assumes "c \<in> set [CHR ''X'', CHR ''Y'']"
    and "split CHR ''Y'' (strip_chars ''X'' line) = ws"
    and "c = CHR ''X'' \<longrightarrow> pgv (strip (ws ! 0)) fmt zs = Inr vx"
    and "c = CHR ''X'' \<and> length ws = 2 \<longrightarrow> pgv (strip (ws ! 1)) fmt zs = Inr vy"
    and "c = CHR ''Y'' \<longrightarrow> pgv (strip_chars '' Y'' line) fmt zs = Inr vy"
  shows "coord_values pgv fmt zs c line =
           Inr (if c = CHR ''X'' then Some vx else None,
                if c = CHR ''Y'' \<or> length ws = 2 then Some vy else None)"
proof -
  have "ws \<noteq> []"
    using assms(2) split_nonempty [of "CHR ''Y''" "strip_chars ''X'' line"] by simp
  then have i: "item ws 0 = Inr (ws ! 0)"
    by (simp add: item_def)
  show ?thesis
    using assms i by (auto simp add: coord_values_def Let_def)
qed

lemma directives_notation_plain:
  assumes "\<not> contains ''ICI'' l" and "strip l \<noteq> ''G91''" and "strip l \<noteq> ''G90''"
  shows "notation' (snd (directives s l)) = notation' s"
  using assms
  by (cases "l = []") (simp_all add: directives_empty directives_nonempty set_notation_def)

subsection \<open>Evaluation of the examples\<close>

lemma digit_val_simps:
  "digit_val CHR ''0'' = 0" "digit_val CHR ''1'' = 1" "digit_val CHR ''2'' = 2"
  "digit_val CHR ''3'' = 3" "digit_val CHR ''4'' = 4" "digit_val CHR ''5'' = 5"
  "digit_val CHR ''6'' = 6" "digit_val CHR ''7'' = 7" "digit_val CHR ''8'' = 8"
  "digit_val CHR ''9'' = 9"
  by (simp_all add: digit_val_def)

lemma digits_pad:
  "foldl (\<lambda>n c. 10 * n + digit_val c) a (replicate k CHR ''0'') = a * 10 ^ k"
  by (induction k arbitrary: a) (simp_all add: digit_val_simps)

lemmas run_defs = parse_line_def directives_def set_state_def set_units_def set_zeros_def
  set_notation_def tool_line_def tool_number_def coord_line_def coord_values_def move_def
  drill_def update_obj_def hit_def item_def settings_def from_line_def from_line_arg_def
  ExcellonTool_init_def no_args_def ExcellonParser_init_def strip_def strip_chars_def
  isspace_def isdigit_def py_int_def digits_val_def digit_val_simps digits_pad decode_def
  Let_def

lemma header_only_eval:
  "header_only = ExcellonParser_init\<lparr>state := ''DRILL''\<rparr>"
  by (simp add: header_only_def run_defs)

lemma job_run: "fst (parse_lines decode ExcellonParser_init job) = None"
  by (simp add: job_def run_defs)

lemma job_done_eval:
  "hits job_done = [(Some 1, 0), (Some 1, 0), (Some 2, 0)]"
  "active_tool job_done = Some 2"
  "state job_done = ''DRILL''"
  "tools job_done (Some 99) = None"
  "map_option hit_count (tool_objs job_done 1) = Some 2"
  "map_option hit_count (tool_objs job_done 2) = Some 1"
  by (simp_all add: job_done_def job_def run_defs)

lemma at_1_2_eval:
  "at_1_2 = ExcellonParser_init\<lparr>list_objs := [0 \<mapsto> (1, 2)]\<rparr>"
  by (simp add: at_1_2_def run_defs)

lemma incremental_at_1_2_eval:
  "incremental_at_1_2 =
     ExcellonParser_init\<lparr>notation' := ''incremental'', list_objs := [0 \<mapsto> (1, 2)]\<rparr>"
  by (simp add: incremental_at_1_2_def run_defs)

lemma no_tool_incremental_eval:
  "no_tool_incremental =
     ExcellonParser_init\<lparr>notation' := ''incremental'', state := ''DRILL'',
       list_objs := [0 \<mapsto> (1, 2)]\<rparr>"
  by (simp add: no_tool_incremental_def run_defs)

lemma header_incremental_eval:
  "format header_incremental = (2, 5)"
  "zero_suppression header_incremental = ''trailing''"
  "pos header_incremental = 0"
  "notation' header_incremental = ''incremental''"
  "state header_incremental = ''HEADER''"
  "hits header_incremental = []"
  "active_tool header_incremental = None"
  "list_objs header_incremental 0 = Some (1, 2)"
  "map_option hit_count (tool_objs header_incremental 1) = Some 0"
  by (simp_all add: header_incremental_def run_defs)

section \<open>The properties of the specification\<close>

text \<open>
  In what follows a coordinate line is a line whose first character is \<^verbatim>\<open>X\<close> or
  \<^verbatim>\<open>Y\<close> (\<open>item line 0 = Inr c\<close> with \<open>c\<close> one of the two), and the phase in which a
  line is processed is \<open>state (snd (directives self line))\<close>: the phase that lines 236,
  240 and 263 of the source read, after lines 202 to 212 have applied the markers of the
  line itself. By \<open>directives_state_plain\<close> it is the phase before the line for a line
  that holds none of \<^verbatim>\<open>M48\<close>, \<^verbatim>\<open>G00\<close>, \<^verbatim>\<open>G05\<close> and does not start with
  \<^verbatim>\<open>%\<close>.
\<close>

text \<open>
  C1. Claimed: the position stored in a hit is a snapshot of the cursor, which later
  coordinate lines leave unchanged. The source appends \<^verbatim>\<open>(self.active_tool, self.pos)\<close>,
  a reference to the one list that every coordinate line changes in place (see
  \<open>hits_share_the_cursor\<close>). Here a job makes a hit at \<open>(a, a)\<close>, the values of
  \<^verbatim>\<open>X01Y01\<close>; the next coordinate line, \<^verbatim>\<open>X02Y02\<close>, of values \<open>(b, b)\<close>, makes a
  second hit, and the first hit then shows \<open>(b, b)\<close> as well.
\<close>

theorem hit_position_follows_cursor:
  assumes "pgv ''0.0100'' (2, 5) ''trailing'' = Inr d"
    and "pgv ''01'' (2, 5) ''trailing'' = Inr a"
    and "pgv ''02'' (2, 5) ''trailing'' = Inr b"
  shows "(let s5 = snd (parse_lines pgv ExcellonParser_init
                         [''M48'', ''T01C0.0100'', ''%'', ''T01'', ''X01Y01'']);
              s6 = snd (parse_line pgv s5 ''X02Y02'')
          in map (hit_position s5) (hits s5) = [Some (a, a)] \<and>
             map (hit_position s6) (hits s6) = [Some (b, b), Some (b, b)])"
  using assms
  by (simp add: hit_position_def run_defs)

theorem hit_position_follows_cursor_witness:
  "decode ''0.0100'' (2, 5) ''trailing'' = Inr (1 / 100) \<and>
   decode ''01'' (2, 5) ''trailing'' = Inr 1 \<and>
   decode ''02'' (2, 5) ''trailing'' = Inr 2 \<and>
   map (hit_position one_hit) (hits one_hit) = [Some (1, 1)] \<and>
   map (hit_position (snd (parse_line decode one_hit ''X02Y02'')))
       (hits (snd (parse_line decode one_hit ''X02Y02''))) = [Some (2, 2), Some (2, 2)]"
proof -
  have 1: "decode ''0.0100'' (2, 5) ''trailing'' = Inr (1 / 100)"
    and 2: "decode ''01'' (2, 5) ''trailing'' = Inr 1"
    and 3: "decode ''02'' (2, 5) ''trailing'' = Inr 2"
    by (simp_all add: run_defs)
  show ?thesis
    using 1 2 3 hit_position_follows_cursor [of decode "1 / 100" 1 2]
    by (simp add: one_hit_def Let_def)
qed

text \<open>
  C2. Claimed: a line with the token \<^verbatim>\<open>LZ\<close> sets the zero suppression of the settings
  to leading. The source assigns \<^verbatim>\<open>self.zeros\<close>, an attribute that nothing reads;
  \<^verbatim>\<open>self.zero_suppression\<close>, which the settings snapshot and the decoding read, stays
  as it was (see \<open>zero_suppression_always_trailing\<close>). Here the line
  \<^verbatim>\<open>INCH,LZ\<close> is processed by a new parser.
\<close>

theorem zero_suppression_not_updated:
  "zeros (snd (parse_line pgv ExcellonParser_init ''INCH,LZ'')) = Some ''L'' \<and>
   zero_suppression (snd (parse_line pgv ExcellonParser_init ''INCH,LZ'')) = ''trailing'' \<and>
   FileSettings.zero_suppression (settings (snd (parse_line pgv ExcellonParser_init ''INCH,LZ'')))
     = ''trailing''"
  by (simp add: settings_def directives_nonempty set_zeros_def ExcellonParser_init_def)

text \<open>
  C3. A line with either form of the incremental directive (\<^verbatim>\<open>ICI\<close> and \<^verbatim>\<open>ON\<close>
  in the line, \<^verbatim>\<open>ICI\<close> and \<^verbatim>\<open>OFF\<close> in the line, or the line being the code
  \<^verbatim>\<open>G91\<close> or \<^verbatim>\<open>G90\<close> once stripped) leaves the notation incremental, whatever it
  was before and whatever else the line does; the off form does not set it to absolute.
\<close>

theorem notation_incremental:
  assumes "contains ''ICI'' line \<and> contains ''ON'' line \<or> strip line = ''G91'' \<or>
           contains ''ICI'' line \<and> contains ''OFF'' line \<or> strip line = ''G90''"
  shows "notation' (snd (parse_line pgv self line)) = ''incremental''"
  using assms by (simp add: directives_notation)

theorem notation_incremental_witness:
  "contains ''ICI'' ''ICI,ON'' \<and> contains ''ON'' ''ICI,ON'' \<and>
   notation' (snd (parse_line decode ExcellonParser_init ''ICI,ON'')) = ''incremental'' \<and>
   contains ''ICI'' ''ICI,OFF'' \<and> contains ''OFF'' ''ICI,OFF'' \<and>
   notation' (snd (parse_line decode
      (snd (parse_line decode ExcellonParser_init ''ICI,ON'')) ''ICI,OFF'')) = ''incremental'' \<and>
   strip ''G91'' = ''G91'' \<and>
   notation' (snd (parse_line decode ExcellonParser_init ''G91'')) = ''incremental'' \<and>
   strip ''G90'' = ''G90'' \<and>
   notation' (snd (parse_line decode ExcellonParser_init ''G90'')) = ''incremental''"
proof -
  have 1: "contains ''ICI'' ''ICI,ON'' \<and> contains ''ON'' ''ICI,ON''" by simp
  have 2: "contains ''ICI'' ''ICI,OFF'' \<and> contains ''OFF'' ''ICI,OFF''" by simp
  have 3: "strip ''G91'' = ''G91''" by (simp add: strip_def isspace_def)
  have 4: "strip ''G90'' = ''G90''" by (simp add: strip_def isspace_def)
  show ?thesis
    using 1 2 3 4
      notation_incremental [of "''ICI,ON''" decode ExcellonParser_init]
      notation_incremental [of "''ICI,OFF''" decode "snd (parse_line decode ExcellonParser_init ''ICI,ON'')"]
      notation_incremental [of "''G91''" decode ExcellonParser_init]
      notation_incremental [of "''G90''" decode ExcellonParser_init]
    by simp
qed

text \<open>
  C4. A coordinate line processed in the DRILL phase when no tool is active does not
  complete normally: it raises the exception of the decoder if a value of the line does
  not decode, and AttributeError (from \<^verbatim>\<open>self.active_tool._hit()\<close> on None) otherwise.
\<close>

theorem drill_without_tool_fails:
  assumes "item line 0 = Inr c" and "c \<in> set [CHR ''X'', CHR ''Y'']"
    and "state (snd (directives self line)) = ''DRILL''"
    and "active_tool self = None"
  shows "fst (parse_line pgv self line) =
           Some (case coord_values pgv (format self) (zero_suppression self) c line of
                   Inl e \<Rightarrow> e
                 | Inr xy \<Rightarrow> AttributeError)"
  using assms
  by (simp add: parse_line_coord [OF assms(1,2)] coord_line_def drill_def Let_def
        split: sum.splits)

theorem drill_without_tool_fails_witness:
  "item ''X01Y01'' 0 = Inr CHR ''X'' \<and>
   state (snd (directives header_only ''X01Y01'')) = ''DRILL'' \<and>
   active_tool header_only = None \<and>
   fst (parse_line decode header_only ''X01Y01'') = Some AttributeError"
  using drill_without_tool_fails [of "''X01Y01''" "CHR ''X''" header_only decode]
  by (simp add: header_only_eval run_defs)

text \<open>
  C5. A tool line processed in a phase other than HEADER whose number
  \<^verbatim>\<open>int(line.strip().split('T')[1])\<close> is not a key of the tool table raises KeyError,
  the unknown-tool error, and the active tool stays what it was.
\<close>

theorem unknown_tool_fails:
  assumes "item line 0 = Inr CHR ''T''"
    and "state (snd (directives self line)) \<noteq> ''HEADER''"
    and "tool_number line = Inr n"
    and "tools self (Some n) = None"
  shows "fst (parse_line pgv self line) = Some KeyError \<and>
         active_tool (snd (parse_line pgv self line)) = active_tool self"
proof -
  from assms(1) have ne: "line \<noteq> []"
    by (auto simp add: item_def)
  have t: "tool_line pgv (snd (directives self line)) line =
      (Some KeyError, snd (directives self line))"
    using assms by (simp add: tool_line_def)
  show ?thesis
    using ne t by (simp add: parse_line_unfold Let_def directives_nonempty)
qed

theorem unknown_tool_fails_witness:
  "item ''T99'' 0 = Inr CHR ''T'' \<and>
   state (snd (directives job_done ''T99'')) = ''DRILL'' \<and>
   tool_number ''T99'' = Inr 99 \<and>
   tools job_done (Some 99) = None \<and>
   fst (parse_line decode job_done ''T99'') = Some KeyError \<and>
   active_tool (snd (parse_line decode job_done ''T99'')) = Some 2"
proof -
  have 1: "item ''T99'' 0 = Inr CHR ''T''"
    by (simp add: item_def)
  have 2: "state (snd (directives job_done ''T99'')) = ''DRILL''"
    by (simp add: directives_nonempty set_state_def job_done_eval)
  have 3: "tool_number ''T99'' = Inr 99"
    by (simp add: run_defs)
  have 4: "tools job_done (Some 99) = None"
    by (simp add: job_done_eval)
  have 5: "state (snd (directives job_done ''T99'')) \<noteq> ''HEADER''"
    by (simp add: 2)
  show ?thesis
    using 1 2 3 4 unknown_tool_fails [OF 1 5 3 4, of decode]
    by (simp add: job_done_eval)
qed

text \<open>
  C6. For a run of a new parser over lines that raises nothing: the hit sequence has as
  many hits as there were coordinate lines processed in the DRILL phase; the hits are in
  the order of their lines (their tools are, in order, the tools that were active as
  those lines arrived, and the hits made by the first \<open>k\<close> lines are the first hits of
  the sequence); and the counter \<^verbatim>\<open>hit_count\<close> of every tool object is the number of
  hits that refer to it.
\<close>

theorem hit_sequence:
  assumes "parse_lines pgv ExcellonParser_init ls = (None, s')"
  shows "length (hits s') = drill_count pgv ExcellonParser_init ls \<and>
         map fst (hits s') = drill_tools pgv ExcellonParser_init ls \<and>
         (\<forall>k. hits (snd (parse_lines pgv ExcellonParser_init (take k ls))) =
               take (drill_count pgv ExcellonParser_init (take k ls)) (hits s')) \<and>
         (\<forall>a t. tool_objs s' a = Some t \<longrightarrow>
               hit_count t = int (length (filter (\<lambda>h. fst h = Some a) (hits s'))))"
proof -
  let ?i = "ExcellonParser_init :: 'a ExcellonParser"
  have run: "consistent s' \<and> pos s' = pos ?i \<and>
      hits s' = hits ?i @ map (\<lambda>a. (a, pos ?i)) (drill_tools pgv ?i ls) \<and>
      length (drill_tools pgv ?i ls) = drill_count pgv ?i ls"
    using consistent_init assms by (rule parse_lines_run)
  have h0: "hits ?i = []"
    by (simp add: ExcellonParser_init_def)
  have prefix: "hits (snd (parse_lines pgv ?i (take k ls))) =
      take (drill_count pgv ?i (take k ls)) (hits s')" for k
  proof -
    have "parse_lines pgv ?i (take k ls @ drop k ls) = (None, s')"
      using assms by simp
    then obtain s1 where a: "parse_lines pgv ?i (take k ls) = (None, s1)"
      and b: "parse_lines pgv s1 (drop k ls) = (None, s')"
      unfolding parse_lines_append by (auto split: prod.splits option.splits)
    have r1: "consistent s1 \<and> pos s1 = pos ?i \<and>
        hits s1 = hits ?i @ map (\<lambda>a. (a, pos ?i)) (drill_tools pgv ?i (take k ls)) \<and>
        length (drill_tools pgv ?i (take k ls)) = drill_count pgv ?i (take k ls)"
      using consistent_init a by (rule parse_lines_run)
    then have c1: "consistent s1" by simp
    have r2: "hits s' = hits s1 @ map (\<lambda>a. (a, pos s1)) (drill_tools pgv s1 (drop k ls))"
      using parse_lines_run [OF c1 b] by simp
    have "length (hits s1) = drill_count pgv ?i (take k ls)"
      using r1 by (simp add: h0)
    then show ?thesis
      by (simp add: a r2)
  qed
  show ?thesis
    using run prefix by (simp add: h0 consistent_def comp_def)
qed

theorem hit_sequence_witness:
  "parse_lines decode ExcellonParser_init job = (None, job_done) \<and>
   length (hits job_done) = 3 \<and>
   drill_count decode ExcellonParser_init job = 3 \<and>
   map fst (hits job_done) = [Some 1, Some 1, Some 2] \<and>
   drill_tools decode ExcellonParser_init job = [Some 1, Some 1, Some 2] \<and>
   hits (snd (parse_lines decode ExcellonParser_init (take 6 job))) = take 1 (hits job_done) \<and>
   map_option hit_count (tool_objs job_done 1) = Some 2 \<and>
   map_option hit_count (tool_objs job_done 2) = Some 1"
proof -
  have run: "parse_lines decode ExcellonParser_init job = (None, job_done)"
    using job_run by (simp add: job_done_def prod_eq_iff)
  have h: "hits job_done = [(Some 1, 0), (Some 1, 0), (Some 2, 0)]"
    by (simp add: job_done_eval)
  note hs = hit_sequence [OF run]
  have n: "drill_count decode ExcellonParser_init job = 3"
    using hs by (simp add: h)
  have t: "drill_tools decode ExcellonParser_init job = [Some 1, Some 1, Some 2]"
    using hs by (simp add: h)
  have p: "hits (snd (parse_lines decode ExcellonParser_init (take 6 job))) = take 1 (hits job_done)"
    by (simp add: h) (simp add: job_def run_defs)
  have l: "length (hits job_done) = 3" and f: "map fst (hits job_done) = [Some 1, Some 1, Some 2]"
    by (simp_all add: h)
  have c1: "map_option hit_count (tool_objs job_done 1) = Some 2"
    and c2: "map_option hit_count (tool_objs job_done 2) = Some 1"
    by (rule job_done_eval)+
  show ?thesis
    using run l n f t p c1 c2 by blast
qed

text \<open>
  C7. A coordinate line whose values decode, \<open>vx\<close> being the x value and \<open>vy\<close> the
  y value read as lines 244 to 252 read them: the x value is present on a line that starts
  with \<^verbatim>\<open>X\<close>, the y value on a line that starts with \<^verbatim>\<open>Y\<close> and on a line that
  starts with \<^verbatim>\<open>X\<close> and splits at \<^verbatim>\<open>Y\<close> into two pieces. In absolute notation
  each value that is present replaces its item of the cursor \<open>(px, py)\<close>; in incremental
  notation it is added to it; the item of an absent axis is unchanged in both. (The
  notation is the one in force once the line's own directives are applied, which by
  \<open>directives_notation_plain\<close> is the notation before a line without such a directive;
  the cursor is changed also when the hit that follows raises.) The examples run a line
  with x alone, one with y alone and one with both, in each notation, from (1, 2).
\<close>

theorem cursor_update:
  assumes "item line 0 = Inr c" and "c \<in> set [CHR ''X'', CHR ''Y'']"
    and "split CHR ''Y'' (strip_chars ''X'' line) = ws"
    and "c = CHR ''X'' \<longrightarrow>
           pgv (strip (ws ! 0)) (format self) (zero_suppression self) = Inr vx"
    and "c = CHR ''X'' \<and> length ws = 2 \<longrightarrow>
           pgv (strip (ws ! 1)) (format self) (zero_suppression self) = Inr vy"
    and "c = CHR ''Y'' \<longrightarrow>
           pgv (strip_chars '' Y'' line) (format self) (zero_suppression self) = Inr vy"
    and "list_objs self (pos self) = Some (px, py)"
  shows "list_objs (snd (parse_line pgv self line)) (pos self) =
           Some (if notation' (snd (directives self line)) = ''absolute''
                 then (if c = CHR ''X'' then vx else px,
                       if c = CHR ''Y'' \<or> length ws = 2 then vy else py)
                 else (if c = CHR ''X'' then px + vx else px,
                       if c = CHR ''Y'' \<or> length ws = 2 then py + vy else py))"
proof -
  have c0: "item line 0 = Inr c" by (rule assms(1))
  have cv: "coord_values pgv (format self) (zero_suppression self) c line =
      Inr (if c = CHR ''X'' then Some vx else None,
           if c = CHR ''Y'' \<or> length ws = 2 then Some vy else None)"
    using assms(2-6) by (rule coord_values_decoded)
  show ?thesis
    using assms(2,7)
    by (simp add: parse_line_coord [OF assms(1,2)] coord_line_def c0 cv drill_def Let_def
          update_obj_def move_def split: option.splits)
qed

theorem cursor_update_witness:
  "(item ''X04'' 0 = Inr CHR ''X'' \<and> split CHR ''Y'' (strip_chars ''X'' ''X04'') = [''04''] \<and>
    decode (strip ''04'') (2, 5) ''trailing'' = Inr 4 \<and>
    list_objs at_1_2 (pos at_1_2) = Some (1, 2) \<and>
    notation' (snd (directives at_1_2 ''X04'')) = ''absolute'' \<and>
    list_objs (snd (parse_line decode at_1_2 ''X04'')) (pos at_1_2) = Some (4, 2)) \<and>
   (item ''Y03'' 0 = Inr CHR ''Y'' \<and>
    decode (strip_chars '' Y'' ''Y03'') (2, 5) ''trailing'' = Inr 3 \<and>
    notation' (snd (directives at_1_2 ''Y03'')) = ''absolute'' \<and>
    list_objs (snd (parse_line decode at_1_2 ''Y03'')) (pos at_1_2) = Some (1, 3)) \<and>
   (item ''X04Y05'' 0 = Inr CHR ''X'' \<and>
    split CHR ''Y'' (strip_chars ''X'' ''X04Y05'') = [''04'', ''05''] \<and>
    decode (strip ''05'') (2, 5) ''trailing'' = Inr 5 \<and>
    notation' (snd (directives at_1_2 ''X04Y05'')) = ''absolute'' \<and>
    list_objs (snd (parse_line decode at_1_2 ''X04Y05'')) (pos at_1_2) = Some (4, 5)) \<and>
   (list_objs incremental_at_1_2 (pos incremental_at_1_2) = Some (1, 2) \<and>
    notation' (snd (directives incremental_at_1_2 ''X04'')) = ''incremental'' \<and>
    list_objs (snd (parse_line decode incremental_at_1_2 ''X04'')) (pos incremental_at_1_2)
      = Some (5, 2)) \<and>
   (notation' (snd (directives incremental_at_1_2 ''Y03'')) = ''incremental'' \<and>
    list_objs (snd (parse_line decode incremental_at_1_2 ''Y03'')) (pos incremental_at_1_2)
      = Some (1, 5)) \<and>
   (notation' (snd (directives incremental_at_1_2 ''X04Y05'')) = ''incremental'' \<and>
    list_objs (snd (parse_line decode incremental_at_1_2 ''X04Y05'')) (pos incremental_at_1_2)
      = Some (5, 7))"
proof -
  have x1: "item ''X04'' 0 = Inr CHR ''X''" and x2: "item ''X04Y05'' 0 = Inr CHR ''X''"
    and y: "item ''Y03'' 0 = Inr CHR ''Y''"
    by (simp_all add: item_def)
  have cx: "CHR ''X'' \<in> set [CHR ''X'', CHR ''Y'']"
    and cy: "CHR ''Y'' \<in> set [CHR ''X'', CHR ''Y'']"
    by simp_all
  have s1: "split CHR ''Y'' (strip_chars ''X'' ''X04'') = [''04'']"
    and s2: "split CHR ''Y'' (strip_chars ''X'' ''X04Y05'') = [''04'', ''05'']"
    and s3: "split CHR ''Y'' (strip_chars ''X'' ''Y03'') = [[], ''03'']"
    by (simp_all add: strip_chars_def)
  have d4: "decode (strip ''04'') (2, 5) ''trailing'' = Inr 4"
    and d5: "decode (strip ''05'') (2, 5) ''trailing'' = Inr 5"
    and d3: "decode (strip_chars '' Y'' ''Y03'') (2, 5) ''trailing'' = Inr 3"
    by (simp_all add: run_defs)
  have a: "format at_1_2 = (2, 5)" "zero_suppression at_1_2 = ''trailing''"
    "list_objs at_1_2 (pos at_1_2) = Some (1, 2)"
    by (simp_all add: at_1_2_eval ExcellonParser_init_def)
  have na: "notation' (snd (directives at_1_2 ''X04'')) = ''absolute''"
    "notation' (snd (directives at_1_2 ''Y03'')) = ''absolute''"
    "notation' (snd (directives at_1_2 ''X04Y05'')) = ''absolute''"
    by (simp_all add: at_1_2_eval run_defs)
  have i: "format incremental_at_1_2 = (2, 5)" "zero_suppression incremental_at_1_2 = ''trailing''"
    "list_objs incremental_at_1_2 (pos incremental_at_1_2) = Some (1, 2)"
    by (simp_all add: incremental_at_1_2_eval ExcellonParser_init_def)
  have ni: "notation' (snd (directives incremental_at_1_2 ''X04'')) = ''incremental''"
    "notation' (snd (directives incremental_at_1_2 ''Y03'')) = ''incremental''"
    "notation' (snd (directives incremental_at_1_2 ''X04Y05'')) = ''incremental''"
    by (simp_all add: incremental_at_1_2_eval run_defs)
  have 1: "list_objs (snd (parse_line decode at_1_2 ''X04'')) (pos at_1_2) = Some (4, 2)"
    using cursor_update [OF x1 cx s1, where pgv = decode and self = at_1_2 and vx = 4
        and vy = 0 and px = 1 and py = 2]
    by (simp add: a d4 na)
  have 2: "list_objs (snd (parse_line decode at_1_2 ''Y03'')) (pos at_1_2) = Some (1, 3)"
    using cursor_update [OF y cy s3, where pgv = decode and self = at_1_2 and vx = 0
        and vy = 3 and px = 1 and py = 2]
    by (simp add: a d3 na)
  have 3: "list_objs (snd (parse_line decode at_1_2 ''X04Y05'')) (pos at_1_2) = Some (4, 5)"
    using cursor_update [OF x2 cx s2, where pgv = decode and self = at_1_2 and vx = 4
        and vy = 5 and px = 1 and py = 2]
    by (simp add: a d4 d5 na)
  have 4: "list_objs (snd (parse_line decode incremental_at_1_2 ''X04'')) (pos incremental_at_1_2)
      = Some (5, 2)"
    using cursor_update [OF x1 cx s1, where pgv = decode and self = incremental_at_1_2
        and vx = 4 and vy = 0 and px = 1 and py = 2]
    by (simp add: i d4 ni)
  have 5: "list_objs (snd (parse_line decode incremental_at_1_2 ''Y03'')) (pos incremental_at_1_2)
      = Some (1, 5)"
    using cursor_update [OF y cy s3, where pgv = decode and self = incremental_at_1_2
        and vx = 0 and vy = 3 and px = 1 and py = 2]
    by (simp add: i d3 ni)
  have 6: "list_objs (snd (parse_line decode incremental_at_1_2 ''X04Y05''))
      (pos incremental_at_1_2) = Some (5, 7)"
    using cursor_update [OF x2 cx s2, where pgv = decode and self = incremental_at_1_2
        and vx = 4 and vy = 5 and px = 1 and py = 2]
    by (simp add: i d4 d5 ni)
  show ?thesis
    using x1 x2 y s1 s2 d4 d5 d3 a(3) i(3) na ni 1 2 3 4 5 6 by blast
qed

text \<open>
  C8. That two runs over the same lines from the same initial settings give the same
  output is, in this model, the fact that \<open>parse_line\<close> and \<open>parse_lines\<close> are
  functions of the parser, the decoder and the lines; there is nothing to prove.
\<close>

text \<open>
  C9. When a coordinate line processed in the DRILL phase raises for want of an active
  tool, the parser has been changed: a hit whose tool is None has been appended, and the
  cursor \<open>(px, py)\<close> holds the new position, each value of the line having replaced
  (absolute notation) or been added to (incremental notation) its item. The examples
  are in both notations.
\<close>

theorem failed_hit_leaves_changes:
  assumes "item line 0 = Inr c" and "c \<in> set [CHR ''X'', CHR ''Y'']"
    and "state (snd (directives self line)) = ''DRILL''"
    and "active_tool self = None"
    and "split CHR ''Y'' (strip_chars ''X'' line) = ws"
    and "c = CHR ''X'' \<longrightarrow>
           pgv (strip (ws ! 0)) (format self) (zero_suppression self) = Inr vx"
    and "c = CHR ''X'' \<and> length ws = 2 \<longrightarrow>
           pgv (strip (ws ! 1)) (format self) (zero_suppression self) = Inr vy"
    and "c = CHR ''Y'' \<longrightarrow>
           pgv (strip_chars '' Y'' line) (format self) (zero_suppression self) = Inr vy"
    and "list_objs self (pos self) = Some (px, py)"
  shows "fst (parse_line pgv self line) = Some AttributeError \<and>
         hits (snd (parse_line pgv self line)) = hits self @ [(None, pos self)] \<and>
         list_objs (snd (parse_line pgv self line)) (pos self) =
           Some (if notation' (snd (directives self line)) = ''absolute''
                 then (if c = CHR ''X'' then vx else px,
                       if c = CHR ''Y'' \<or> length ws = 2 then vy else py)
                 else (if c = CHR ''X'' then px + vx else px,
                       if c = CHR ''Y'' \<or> length ws = 2 then py + vy else py))"
proof -
  have c0: "item line 0 = Inr c" by (rule assms(1))
  have cv: "coord_values pgv (format self) (zero_suppression self) c line =
      Inr (if c = CHR ''X'' then Some vx else None,
           if c = CHR ''Y'' \<or> length ws = 2 then Some vy else None)"
    using assms(2,5-8) by (rule coord_values_decoded)
  show ?thesis
    using assms(2-4,9)
    by (simp add: parse_line_coord [OF assms(1,2)] coord_line_def c0 cv drill_def Let_def
          update_obj_def move_def)
qed

theorem failed_hit_leaves_changes_witness:
  "(item ''X01Y01'' 0 = Inr CHR ''X'' \<and>
    state (snd (directives header_only ''X01Y01'')) = ''DRILL'' \<and>
    active_tool header_only = None \<and>
    split CHR ''Y'' (strip_chars ''X'' ''X01Y01'') = [''01'', ''01''] \<and>
    decode (strip ''01'') (2, 5) ''trailing'' = Inr 1 \<and>
    list_objs header_only (pos header_only) = Some (0, 0) \<and> hits header_only = [] \<and>
    notation' (snd (directives header_only ''X01Y01'')) = ''absolute'' \<and>
    fst (parse_line decode header_only ''X01Y01'') = Some AttributeError \<and>
    hits (snd (parse_line decode header_only ''X01Y01'')) = [(None, pos header_only)] \<and>
    list_objs (snd (parse_line decode header_only ''X01Y01'')) (pos header_only) = Some (1, 1)) \<and>
   (item ''Y03'' 0 = Inr CHR ''Y'' \<and>
    state (snd (directives no_tool_incremental ''Y03'')) = ''DRILL'' \<and>
    active_tool no_tool_incremental = None \<and>
    decode (strip_chars '' Y'' ''Y03'') (2, 5) ''trailing'' = Inr 3 \<and>
    list_objs no_tool_incremental (pos no_tool_incremental) = Some (1, 2) \<and>
    hits no_tool_incremental = [] \<and>
    notation' (snd (directives no_tool_incremental ''Y03'')) = ''incremental'' \<and>
    fst (parse_line decode no_tool_incremental ''Y03'') = Some AttributeError \<and>
    hits (snd (parse_line decode no_tool_incremental ''Y03'')) = [(None, pos no_tool_incremental)] \<and>
    list_objs (snd (parse_line decode no_tool_incremental ''Y03'')) (pos no_tool_incremental)
      = Some (1, 5)) \<and>
   (item ''X04'' 0 = Inr CHR ''X'' \<and>
    state (snd (directives no_tool_incremental ''X04'')) = ''DRILL'' \<and>
    split CHR ''Y'' (strip_chars ''X'' ''X04'') = [''04''] \<and>
    decode (strip ''04'') (2, 5) ''trailing'' = Inr 4 \<and>
    notation' (snd (directives no_tool_incremental ''X04'')) = ''incremental'' \<and>
    fst (parse_line decode no_tool_incremental ''X04'') = Some AttributeError \<and>
    hits (snd (parse_line decode no_tool_incremental ''X04'')) = [(None, pos no_tool_incremental)] \<and>
    list_objs (snd (parse_line decode no_tool_incremental ''X04'')) (pos no_tool_incremental)
      = Some (5, 2))"
proof -
  have x0: "item ''X01Y01'' 0 = Inr CHR ''X''" and x1: "item ''X04'' 0 = Inr CHR ''X''"
    and y: "item ''Y03'' 0 = Inr CHR ''Y''"
    by (simp_all add: item_def)
  have cx: "CHR ''X'' \<in> set [CHR ''X'', CHR ''Y'']"
    and cy: "CHR ''Y'' \<in> set [CHR ''X'', CHR ''Y'']"
    by simp_all
  have s0: "split CHR ''Y'' (strip_chars ''X'' ''X01Y01'') = [''01'', ''01'']"
    and s1: "split CHR ''Y'' (strip_chars ''X'' ''X04'') = [''04'']"
    and s3: "split CHR ''Y'' (strip_chars ''X'' ''Y03'') = [[], ''03'']"
    by (simp_all add: strip_chars_def)
  have d1: "decode (strip ''01'') (2, 5) ''trailing'' = Inr 1"
    and d4: "decode (strip ''04'') (2, 5) ''trailing'' = Inr 4"
    and d3: "decode (strip_chars '' Y'' ''Y03'') (2, 5) ''trailing'' = Inr 3"
    by (simp_all add: run_defs)
  have h: "format header_only = (2, 5)" "zero_suppression header_only = ''trailing''"
    "list_objs header_only (pos header_only) = Some (0, 0)" "hits header_only = []"
    "active_tool header_only = None"
    by (simp_all add: header_only_eval ExcellonParser_init_def)
  have hd: "state (snd (directives header_only ''X01Y01'')) = ''DRILL''"
    "notation' (snd (directives header_only ''X01Y01'')) = ''absolute''"
    by (simp_all add: header_only_eval run_defs)
  have n: "format no_tool_incremental = (2, 5)" "zero_suppression no_tool_incremental = ''trailing''"
    "list_objs no_tool_incremental (pos no_tool_incremental) = Some (1, 2)"
    "hits no_tool_incremental = []" "active_tool no_tool_incremental = None"
    by (simp_all add: no_tool_incremental_eval ExcellonParser_init_def)
  have nd: "state (snd (directives no_tool_incremental ''Y03'')) = ''DRILL''"
    "notation' (snd (directives no_tool_incremental ''Y03'')) = ''incremental''"
    "state (snd (directives no_tool_incremental ''X04'')) = ''DRILL''"
    "notation' (snd (directives no_tool_incremental ''X04'')) = ''incremental''"
    by (simp_all add: no_tool_incremental_eval run_defs)
  have 1: "fst (parse_line decode header_only ''X01Y01'') = Some AttributeError \<and>
    hits (snd (parse_line decode header_only ''X01Y01'')) = [(None, pos header_only)] \<and>
    list_objs (snd (parse_line decode header_only ''X01Y01'')) (pos header_only) = Some (1, 1)"
    using failed_hit_leaves_changes [OF x0 cx hd(1) h(5) s0, where pgv = decode and vx = 1
        and vy = 1 and px = 0 and py = 0]
    by (simp add: h d1 hd)
  have 2: "fst (parse_line decode no_tool_incremental ''Y03'') = Some AttributeError \<and>
    hits (snd (parse_line decode no_tool_incremental ''Y03'')) = [(None, pos no_tool_incremental)] \<and>
    list_objs (snd (parse_line decode no_tool_incremental ''Y03'')) (pos no_tool_incremental)
      = Some (1, 5)"
    using failed_hit_leaves_changes [OF y cy nd(1) n(5) s3, where pgv = decode and vx = 0
        and vy = 3 and px = 1 and py = 2]
    by (simp add: n d3 nd)
  have 3: "fst (parse_line decode no_tool_incremental ''X04'') = Some AttributeError \<and>
    hits (snd (parse_line decode no_tool_incremental ''X04'')) = [(None, pos no_tool_incremental)] \<and>
    list_objs (snd (parse_line decode no_tool_incremental ''X04'')) (pos no_tool_incremental)
      = Some (5, 2)"
    using failed_hit_leaves_changes [OF x1 cx nd(3) n(5) s1, where pgv = decode and vx = 4
        and vy = 0 and px = 1 and py = 2]
    by (simp add: n d4 nd)
  show ?thesis
    using x0 x1 y s0 s1 d1 d4 d3 h(3,4,5) hd n(3,4,5) nd 1 2 3 by blast
qed

text \<open>
  C10. A coordinate line processed in a phase other than DRILL leaves the hit sequence,
  every tool object (so every \<^verbatim>\<open>hit_count\<close>) and the active tool unchanged. It raises
  the decoder's exception, with the cursor unchanged, when its values do not decode; when
  they decode it returns normally and each value has replaced (absolute notation) or
  been added to (incremental notation) its item of the cursor \<open>(px, py)\<close>, the item of
  an absent axis being unchanged. The examples are in both notations.
\<close>

theorem coordinate_outside_drill:
  assumes "item line 0 = Inr c" and "c \<in> set [CHR ''X'', CHR ''Y'']"
    and "state (snd (directives self line)) \<noteq> ''DRILL''"
    and "split CHR ''Y'' (strip_chars ''X'' line) = ws"
    and "list_objs self (pos self) = Some (px, py)"
  shows "hits (snd (parse_line pgv self line)) = hits self \<and>
         tool_objs (snd (parse_line pgv self line)) = tool_objs self \<and>
         active_tool (snd (parse_line pgv self line)) = active_tool self \<and>
         (case coord_values pgv (format self) (zero_suppression self) c line of
            Inl e \<Rightarrow>
              fst (parse_line pgv self line) = Some e \<and>
              list_objs (snd (parse_line pgv self line)) (pos self) = Some (px, py)
          | Inr xy \<Rightarrow> fst (parse_line pgv self line) = None) \<and>
         ((c = CHR ''X'' \<longrightarrow>
             pgv (strip (ws ! 0)) (format self) (zero_suppression self) = Inr vx) \<and>
          (c = CHR ''X'' \<and> length ws = 2 \<longrightarrow>
             pgv (strip (ws ! 1)) (format self) (zero_suppression self) = Inr vy) \<and>
          (c = CHR ''Y'' \<longrightarrow>
             pgv (strip_chars '' Y'' line) (format self) (zero_suppression self) = Inr vy)
          \<longrightarrow>
          fst (parse_line pgv self line) = None \<and>
          list_objs (snd (parse_line pgv self line)) (pos self) =
            Some (if notation' (snd (directives self line)) = ''absolute''
                  then (if c = CHR ''X'' then vx else px,
                        if c = CHR ''Y'' \<or> length ws = 2 then vy else py)
                  else (if c = CHR ''X'' then px + vx else px,
                        if c = CHR ''Y'' \<or> length ws = 2 then py + vy else py)))"
proof -
  have c0: "item line 0 = Inr c" by (rule assms(1))
  have frame: "hits (snd (parse_line pgv self line)) = hits self \<and>
         tool_objs (snd (parse_line pgv self line)) = tool_objs self \<and>
         active_tool (snd (parse_line pgv self line)) = active_tool self \<and>
         (case coord_values pgv (format self) (zero_suppression self) c line of
            Inl e \<Rightarrow>
              fst (parse_line pgv self line) = Some e \<and>
              list_objs (snd (parse_line pgv self line)) (pos self) = Some (px, py)
          | Inr xy \<Rightarrow> fst (parse_line pgv self line) = None)"
    using assms(2,3,5)
    by (simp add: parse_line_coord [OF assms(1,2)] coord_line_def c0 Let_def
          update_obj_def split: sum.splits)
  have moved: "fst (parse_line pgv self line) = None \<and>
          list_objs (snd (parse_line pgv self line)) (pos self) =
            Some (if notation' (snd (directives self line)) = ''absolute''
                  then (if c = CHR ''X'' then vx else px,
                        if c = CHR ''Y'' \<or> length ws = 2 then vy else py)
                  else (if c = CHR ''X'' then px + vx else px,
                        if c = CHR ''Y'' \<or> length ws = 2 then py + vy else py))"
    if d: "c = CHR ''X'' \<longrightarrow>
             pgv (strip (ws ! 0)) (format self) (zero_suppression self) = Inr vx"
          "c = CHR ''X'' \<and> length ws = 2 \<longrightarrow>
             pgv (strip (ws ! 1)) (format self) (zero_suppression self) = Inr vy"
          "c = CHR ''Y'' \<longrightarrow>
             pgv (strip_chars '' Y'' line) (format self) (zero_suppression self) = Inr vy"
  proof -
    have cv: "coord_values pgv (format self) (zero_suppression self) c line =
        Inr (if c = CHR ''X'' then Some vx else None,
             if c = CHR ''Y'' \<or> length ws = 2 then Some vy else None)"
      using assms(2,4) d by (rule coord_values_decoded)
    show ?thesis
      using assms(2,3,5)
      by (simp add: parse_line_coord [OF assms(1,2)] coord_line_def c0 cv Let_def
            update_obj_def move_def)
  qed
  from frame moved show ?thesis
    by blast
qed

theorem coordinate_outside_drill_witness:
  "(item ''X01Y02'' 0 = Inr CHR ''X'' \<and>
    state (snd (directives tool_defined ''X01Y02'')) = ''HEADER'' \<and>
    split CHR ''Y'' (strip_chars ''X'' ''X01Y02'') = [''01'', ''02''] \<and>
    decode (strip ''01'') (2, 5) ''trailing'' = Inr 1 \<and>
    decode (strip ''02'') (2, 5) ''trailing'' = Inr 2 \<and>
    list_objs tool_defined (pos tool_defined) = Some (0, 0) \<and>
    notation' (snd (directives tool_defined ''X01Y02'')) = ''absolute'' \<and>
    hits (snd (parse_line decode tool_defined ''X01Y02'')) = hits tool_defined \<and>
    tool_objs (snd (parse_line decode tool_defined ''X01Y02'')) = tool_objs tool_defined \<and>
    active_tool (snd (parse_line decode tool_defined ''X01Y02'')) = active_tool tool_defined \<and>
    fst (parse_line decode tool_defined ''X01Y02'') = None \<and>
    list_objs (snd (parse_line decode tool_defined ''X01Y02'')) (pos tool_defined) = Some (1, 2)) \<and>
   (item ''Y03'' 0 = Inr CHR ''Y'' \<and>
    state (snd (directives header_incremental ''Y03'')) = ''HEADER'' \<and>
    decode (strip_chars '' Y'' ''Y03'') (2, 5) ''trailing'' = Inr 3 \<and>
    list_objs header_incremental (pos header_incremental) = Some (1, 2) \<and>
    notation' (snd (directives header_incremental ''Y03'')) = ''incremental'' \<and>
    hits (snd (parse_line decode header_incremental ''Y03'')) = hits header_incremental \<and>
    tool_objs (snd (parse_line decode header_incremental ''Y03'')) = tool_objs header_incremental \<and>
    active_tool (snd (parse_line decode header_incremental ''Y03'')) = active_tool header_incremental \<and>
    fst (parse_line decode header_incremental ''Y03'') = None \<and>
    list_objs (snd (parse_line decode header_incremental ''Y03'')) (pos header_incremental)
      = Some (1, 5)) \<and>
   (item ''X04'' 0 = Inr CHR ''X'' \<and>
    state (snd (directives header_incremental ''X04'')) = ''HEADER'' \<and>
    split CHR ''Y'' (strip_chars ''X'' ''X04'') = [''04''] \<and>
    decode (strip ''04'') (2, 5) ''trailing'' = Inr 4 \<and>
    notation' (snd (directives header_incremental ''X04'')) = ''incremental'' \<and>
    hits (snd (parse_line decode header_incremental ''X04'')) = hits header_incremental \<and>
    fst (parse_line decode header_incremental ''X04'') = None \<and>
    list_objs (snd (parse_line decode header_incremental ''X04'')) (pos header_incremental)
      = Some (5, 2))"
proof -
  have x0: "item ''X01Y02'' 0 = Inr CHR ''X''" and x1: "item ''X04'' 0 = Inr CHR ''X''"
    and y: "item ''Y03'' 0 = Inr CHR ''Y''"
    by (simp_all add: item_def)
  have cx: "CHR ''X'' \<in> set [CHR ''X'', CHR ''Y'']"
    and cy: "CHR ''Y'' \<in> set [CHR ''X'', CHR ''Y'']"
    by simp_all
  have s0: "split CHR ''Y'' (strip_chars ''X'' ''X01Y02'') = [''01'', ''02'']"
    and s1: "split CHR ''Y'' (strip_chars ''X'' ''X04'') = [''04'']"
    and s3: "split CHR ''Y'' (strip_chars ''X'' ''Y03'') = [[], ''03'']"
    by (simp_all add: strip_chars_def)
  have d1: "decode (strip ''01'') (2, 5) ''trailing'' = Inr 1"
    and d2: "decode (strip ''02'') (2, 5) ''trailing'' = Inr 2"
    and d4: "decode (strip ''04'') (2, 5) ''trailing'' = Inr 4"
    and d3: "decode (strip_chars '' Y'' ''Y03'') (2, 5) ''trailing'' = Inr 3"
    by (simp_all add: run_defs)
  have t: "format tool_defined = (2, 5)" "zero_suppression tool_defined = ''trailing''"
    "list_objs tool_defined (pos tool_defined) = Some (0, 0)"
    by (simp_all add: tool_defined_def run_defs)
  have td: "state (snd (directives tool_defined ''X01Y02'')) = ''HEADER''"
    "notation' (snd (directives tool_defined ''X01Y02'')) = ''absolute''"
    by (simp_all add: tool_defined_def run_defs)
  have tn: "state (snd (directives tool_defined ''X01Y02'')) \<noteq> ''DRILL''"
    by (simp add: td)
  have i: "format header_incremental = (2, 5)" "zero_suppression header_incremental = ''trailing''"
    "list_objs header_incremental (pos header_incremental) = Some (1, 2)"
    by (simp_all add: header_incremental_eval)
  have hd: "state (snd (directives header_incremental ''Y03'')) = ''HEADER''"
    "notation' (snd (directives header_incremental ''Y03'')) = ''incremental''"
    "state (snd (directives header_incremental ''X04'')) = ''HEADER''"
    "notation' (snd (directives header_incremental ''X04'')) = ''incremental''"
    by (simp_all add: directives_state_plain directives_notation_plain header_incremental_eval
          strip_def isspace_def)
  have hn: "state (snd (directives header_incremental ''Y03'')) \<noteq> ''DRILL''"
    "state (snd (directives header_incremental ''X04'')) \<noteq> ''DRILL''"
    by (simp_all add: hd)
  have 1: "hits (snd (parse_line decode tool_defined ''X01Y02'')) = hits tool_defined \<and>
    tool_objs (snd (parse_line decode tool_defined ''X01Y02'')) = tool_objs tool_defined \<and>
    active_tool (snd (parse_line decode tool_defined ''X01Y02'')) = active_tool tool_defined \<and>
    fst (parse_line decode tool_defined ''X01Y02'') = None \<and>
    list_objs (snd (parse_line decode tool_defined ''X01Y02'')) (pos tool_defined) = Some (1, 2)"
    using coordinate_outside_drill [OF x0 cx tn s0 t(3), where pgv = decode and vx = 1 and vy = 2]
    by (simp add: t d1 d2 td)
  have 2: "hits (snd (parse_line decode header_incremental ''Y03'')) = hits header_incremental \<and>
    tool_objs (snd (parse_line decode header_incremental ''Y03'')) = tool_objs header_incremental \<and>
    active_tool (snd (parse_line decode header_incremental ''Y03'')) = active_tool header_incremental \<and>
    fst (parse_line decode header_incremental ''Y03'') = None \<and>
    list_objs (snd (parse_line decode header_incremental ''Y03'')) (pos header_incremental)
      = Some (1, 5)"
    using coordinate_outside_drill [OF y cy hn(1) s3 i(3), where pgv = decode and vx = 0 and vy = 3]
    by (simp add: i d3 hd)
  have 3: "hits (snd (parse_line decode header_incremental ''X04'')) = hits header_incremental \<and>
    fst (parse_line decode header_incremental ''X04'') = None \<and>
    list_objs (snd (parse_line decode header_incremental ''X04'')) (pos header_incremental)
      = Some (5, 2)"
    using coordinate_outside_drill [OF x1 cx hn(2) s1 i(3), where pgv = decode and vx = 4 and vy = 0]
    by (simp add: i d4 hd)
  show ?thesis
    using x0 x1 y s0 s1 d1 d2 d4 d3 t(3) td i(3) hd 1 2 3 by blast
qed

end
